theory Spec2Isabelle
  imports Complex_Main "HOL-Library.Word"
begin

section \<open>The detection worker: data model\<close>

text \<open>
  The source is \<^verbatim>\<open>detection-worker.js\<close>, a Web Worker that loads an ONNX model and
  runs it on camera frames. A JavaScript number is a binary64 value: a finite one is
  the real number it denotes (the two zeros are one), beside \<^verbatim>\<open>NaN\<close> and the two
  infinities. Typed arrays are lists: a read past the end yields \<^verbatim>\<open>undefined\<close>, a
  write past the end is dropped, as in JavaScript.
\<close>

datatype jsnum = Num real | NaN | PosInf | NegInf

section \<open>Floating point\<close>

text \<open>Rounding to the nearest integer, ties to the even one.\<close>

definition round_half_even :: "real \<Rightarrow> int" where
  "round_half_even x =
     (let f = \<lfloor>x\<rfloor> in
      if x < real_of_int f + 1 / 2 then f
      else if real_of_int f + 1 / 2 < x then f + 1
      else if even f then f
      else f + 1)"

text \<open>The number of binary digits of a positive integer.\<close>

function bit_length :: "int \<Rightarrow> int" where
  "bit_length n = (if n \<le> 0 then 0 else bit_length (n div 2) + 1)"
  by pat_completeness auto
termination
  by (relation "measure nat") auto

declare bit_length.simps [simp del]

text \<open>The binary exponent of a positive real: the \<open>e\<close> with \<open>2^e \<le> x < 2^(e + 1)\<close>.\<close>

definition binade :: "real \<Rightarrow> int" where
  "binade x =
     (if 1 \<le> x then bit_length \<lfloor>x\<rfloor> - 1
      else - bit_length (\<lceil>1 / x\<rceil> - 1))"

definition pow2 :: "int \<Rightarrow> real" where
  "pow2 e = (if 0 \<le> e then 2 ^ nat e else 1 / 2 ^ nat (- e))"

text \<open>
  IEEE 754 rounding to nearest, ties to even, into the binary format with \<open>p\<close>
  significant bits and least exponent \<open>emin\<close>: the value is rounded to a multiple
  of the spacing of the format at its magnitude, the spacing of the subnormal numbers
  below \<open>2^emin\<close>. The result is the real that the format's arithmetic yields as
  long as it stays below the format's overflow threshold.
\<close>

definition round_binary :: "nat \<Rightarrow> int \<Rightarrow> real \<Rightarrow> real" where
  "round_binary p emin x =
     (if x = 0 then 0
      else
        let e = max (binade \<bar>x\<bar>) emin;
            q = pow2 (e - int p + 1)
        in sgn x * real_of_int (round_half_even (\<bar>x\<bar> / q)) * q)"

text \<open>
  The result of a binary64 operation of the source whose exact result is \<open>x\<close>. The
  operations of the source divide a byte by 255 and subtract two readings of the
  clock, so the overflow threshold \<open>2^1024\<close> is out of reach.
\<close>

definition double :: "real \<Rightarrow> real" where
  "double x = round_binary 53 (- 1022) x"

text \<open>
  The conversion of a number to binary32, as a store into a \<^verbatim>\<open>Float32Array\<close> does it
  (\<^verbatim>\<open>Math.fround\<close>): what rounds to \<open>2^128\<close> or beyond becomes an infinity.
\<close>

definition fround :: "jsnum \<Rightarrow> jsnum" where
  "fround v =
     (case v of
        Num x \<Rightarrow>
          let r = round_binary 24 (- 126) x
          in if 2 ^ 128 \<le> \<bar>r\<bar> then (if 0 < x then PosInf else NegInf) else Num r
      | NaN \<Rightarrow> NaN
      | PosInf \<Rightarrow> PosInf
      | NegInf \<Rightarrow> NegInf)"

type_synonym u8 = "8 word"

text \<open>
  \<^verbatim>\<open>imageData.data\<close> arrives either as a typed byte array
  (\<^verbatim>\<open>Uint8ClampedArray\<close>) or, after serialisation, as a plain array of numbers.
\<close>

datatype pixel_source = PlainArray "jsnum list" | TypedArray "u8 list"

record image_data =
  data :: pixel_source
  width :: nat
  height :: nat

text \<open>\<^verbatim>\<open>ort.Tensor(type, data, dims)\<close>.\<close>

record tensor =
  ttype :: string
  tdata :: "jsnum list"
  dims :: "nat list"

definition MODEL_INPUT_SIZE :: nat where
  "MODEL_INPUT_SIZE = 640"

section \<open>Tensor codec: \<^verbatim>\<open>preprocessImageData\<close>\<close>

text \<open>
  The conversion \<^verbatim>\<open>new Uint8ClampedArray(data)\<close> applied to one number:
  \<^verbatim>\<open>NaN\<close> becomes 0, the value is clamped to \<open>[0, 255]\<close> and rounded to the
  nearest integer, ties to even.
\<close>

definition ToUint8Clamp :: "jsnum \<Rightarrow> u8" where
  "ToUint8Clamp v =
     (case v of
        NaN \<Rightarrow> 0
      | PosInf \<Rightarrow> 255
      | NegInf \<Rightarrow> 0
      | Num x \<Rightarrow>
          if x \<le> 0 then 0
          else if 255 \<le> x then 255
          else
            let f = \<lfloor>x\<rfloor> in
            if real_of_int f + 1 / 2 < x then of_int (f + 1)
            else if x < real_of_int f + 1 / 2 then of_int f
            else if even f then of_int f
            else of_int (f + 1))"

text \<open>\<^verbatim>\<open>Array.isArray(data) ? new Uint8ClampedArray(data) : data\<close>\<close>

definition pixelData_of :: "pixel_source \<Rightarrow> u8 list" where
  "pixelData_of d =
     (case d of
        PlainArray xs \<Rightarrow> map ToUint8Clamp xs
      | TypedArray bs \<Rightarrow> bs)"

text \<open>Indexed read of a typed array: \<open>None\<close> is \<^verbatim>\<open>undefined\<close>.\<close>

definition typed_get :: "u8 list \<Rightarrow> nat \<Rightarrow> u8 option" where
  "typed_get a j = (if j < length a then Some (a ! j) else None)"

text \<open>
  \<^verbatim>\<open>pixelData[j] / 255.0\<close>, a binary64 division; \<^verbatim>\<open>undefined / 255.0\<close> is \<^verbatim>\<open>NaN\<close>.
\<close>

definition div255 :: "u8 option \<Rightarrow> jsnum" where
  "div255 v = (case v of None \<Rightarrow> NaN | Some b \<Rightarrow> Num (double (real (unat b) / 255)))"

text \<open>
  Indexed write to a \<^verbatim>\<open>Float32Array\<close>: the number is converted to binary32; out of
  range, nothing happens.
\<close>

definition typed_set :: "jsnum list \<Rightarrow> nat \<Rightarrow> jsnum \<Rightarrow> jsnum list" where
  "typed_set a j v = (if j < length a then a[j := fround v] else a)"

text \<open>
  The \<^verbatim>\<open>for\<close> loop of lines 152-159. The bound \<^verbatim>\<open>pixelData.length / 4\<close> is a
  real quotient, so a buffer of five bytes is visited at \<open>i = 0\<close> and \<open>i = 1\<close>.
\<close>

function encode_loop :: "u8 list \<Rightarrow> nat \<Rightarrow> nat \<Rightarrow> nat \<Rightarrow> jsnum list \<Rightarrow> jsnum list" where
  "encode_loop pixelData w h i float32Data =
     (if real i < real (length pixelData) / 4 then
        let r = div255 (typed_get pixelData (i * 4));
            g = div255 (typed_get pixelData (i * 4 + 1));
            b = div255 (typed_get pixelData (i * 4 + 2));
            out1 = typed_set float32Data i r;
            out2 = typed_set out1 (i + w * h) g;
            out3 = typed_set out2 (i + 2 * w * h) b
        in encode_loop pixelData w h (i + 1) out3
      else float32Data)"
  by pat_completeness auto
termination
  by (relation "measure (\<lambda>(pixelData, w, h, i, float32Data). length pixelData - 4 * i)") auto

declare encode_loop.simps [simp del]

definition preprocessImageData :: "image_data \<Rightarrow> tensor" where
  "preprocessImageData imageData =
     (let pixelData = pixelData_of (data imageData);
          w = width imageData;
          h = height imageData;
          float32Data = replicate (3 * w * h) (Num 0)
      in \<lparr> ttype = ''float32'',
           tdata = encode_loop pixelData w h 0 float32Data,
           dims = [1, 3, w, h] \<rparr>)"

section \<open>Messages, sessions and the outside world\<close>

text \<open>
  The inference engine, \<^verbatim>\<open>fetch\<close> and the clock are outside the worker. Whatever
  they answer is an input of the model: a promise that settles is an input
  carrying the value it resolves with or the error it rejects with.
\<close>

datatype js_error = JsError (message: string)

type_synonym frame_id = nat

text \<open>
  The \<^verbatim>\<open>data\<close> object of an inbound message; a property that is absent reads as
  \<^verbatim>\<open>undefined\<close>, here \<open>None\<close>. The message itself, \<^verbatim>\<open>e.data\<close>, is taken to be an
  object with a string \<^verbatim>\<open>type\<close>.
\<close>

record payload =
  modelPath :: "string option"
  imageData :: "image_data option"
  frameId :: "frame_id option"
  timestamp :: "real option"

record inbound =
  mtype :: string
  mdata :: "payload option"

text \<open>An \<^verbatim>\<open>ort.InferenceSession\<close>: an opaque handle with its declared names.\<close>

record session =
  handle :: nat
  inputNames :: "string list"
  outputNames :: "string list"
  backendHint :: "string option"

record session_options =
  executionProviders :: "string list"
  graphOptimizationLevel :: string
  executionMode :: string
  enableCpuMemArena :: bool
  enableMemPattern :: bool

definition sessionOptions :: session_options where
  "sessionOptions =
     \<lparr> executionProviders = [''webgl'', ''wasm''],
       graphOptimizationLevel = ''all'',
       executionMode = ''parallel'',
       enableCpuMemArena = True,
       enableMemPattern = True \<rparr>"

datatype js_value = JNumber real | JString string

text \<open>\<^verbatim>\<open>typeof v === "number"\<close>\<close>

fun is_number :: "js_value \<Rightarrow> bool" where
  "is_number (JNumber x) = True"
| "is_number (JString s) = False"

record frame_output =
  odata :: "jsnum list"
  odims :: "nat list"

datatype outbound =
    MODEL_LOADED "string list" "string list"
  | FRAME_PROCESSED "frame_id option" "real option" frame_output js_value
  | ERROR string "frame_id option"

text \<open>What the worker does that the outside can see: messages posted and console lines.\<close>

datatype event =
    PostMessage outbound
  | LogModelLoaded string
  | LogFrameStarted "frame_id option"
  | LogFrameComplete "frame_id option" string string string
  | ErrorFrame "frame_id option" string js_error
  | WarnUnknownType string

text \<open>The locals of \<^verbatim>\<open>processFrame\<close> that are live across \<^verbatim>\<open>await session.run(feeds)\<close>.\<close>

record frame_ctx =
  c_frameId :: "frame_id option"
  c_timestamp :: "real option"
  c_startTime :: real
  c_preprocessTime :: string
  c_inferenceStart :: real

type_synonym response = nat

text \<open>
  A handler suspended at an \<^verbatim>\<open>await\<close>: the three of \<^verbatim>\<open>initModel\<close> (lines 39, 40
  and 52) and the one of \<^verbatim>\<open>processFrame\<close> (line 96), which keeps the session
  object \<^verbatim>\<open>run\<close> was called on and the feeds it was given.
\<close>

datatype task =
    AwaitFetch "string option"
  | AwaitArrayBuffer response
  | AwaitCreate "u8 list" session_options
  | AwaitRun session "(string \<times> tensor) list" frame_ctx

datatype settlement =
    FetchSettled "js_error + response"
  | ArrayBufferSettled "js_error + u8 list"
  | CreateSettled "js_error + session"
  | RunSettled "js_error + (string \<rightharpoonup> tensor)"

text \<open>
  The event loop hands the worker either the next message or the settlement of the
  promise that the \<open>k\<close>-th suspended handler is waiting for.
\<close>

datatype input = Message inbound | Settle nat settlement

text \<open>
  The worker: the global \<^verbatim>\<open>session\<close>, the suspended handlers, and how many times
  \<^verbatim>\<open>performance.now()\<close> has been read.
\<close>

record worker =
  session :: "session option"
  pending :: "task list"
  ticks :: nat

text \<open>
  The places where the engine raises a \<^verbatim>\<open>TypeError\<close> of its own: a property read of
  \<^verbatim>\<open>undefined\<close> or of \<^verbatim>\<open>null\<close>, a destructuring of \<^verbatim>\<open>undefined\<close> (the first
  property of the pattern and the name of what is destructured), and the conversion
  of a \<^verbatim>\<open>BigInt\<close> typed array to a \<^verbatim>\<open>Float32Array\<close>.
\<close>

datatype type_error_site =
    ReadOfUndefined string
  | ReadOfNull string
  | DestructureUndefined string string
  | BigIntContent

text \<open>
  The JavaScript engine the worker runs on: its clock, a function from the number
  of the reading of \<^verbatim>\<open>performance.now()\<close> to the time it returns, and its wording of
  the messages of its own \<^verbatim>\<open>TypeError\<close>s, which differs between engines.
\<close>

record engine =
  now :: "nat \<Rightarrow> real"
  type_error_message :: "type_error_site \<Rightarrow> string"

definition TypeError :: "engine \<Rightarrow> type_error_site \<Rightarrow> js_error" where
  "TypeError eng site = JsError (type_error_message eng site)"

definition init_worker :: worker where
  "init_worker = \<lparr> session = None, pending = [], ticks = 0 \<rparr>"

section \<open>Number formatting\<close>

definition digit :: "nat \<Rightarrow> char" where
  "digit d = ''0123456789'' ! d"

fun dec :: "nat \<Rightarrow> string" where
  "dec n = (if n < 10 then [digit n] else dec (n div 10) @ [digit (n mod 10)])"

declare dec.simps [simp del]

text \<open>
  \<^verbatim>\<open>x.toFixed(2)\<close> for a finite \<open>x\<close> below \<open>10^21\<close> in size, which every
  difference of two clock readings is: the multiple of \<open>1/100\<close> nearest to the exact
  value of \<open>x\<close>, the larger one on a tie, written with two decimals, after a minus
  sign when \<open>x < 0\<close>.
\<close>

definition toFixed2 :: "real \<Rightarrow> string" where
  "toFixed2 x =
     (let n = nat \<lfloor>\<bar>x\<bar> * 100 + 1 / 2\<rfloor>
      in (if x < 0 then ''-'' else [])
         @ dec (n div 100) @ ''.'' @ [digit (n mod 100 div 10), digit (n mod 10)])"

section \<open>The handlers\<close>

text \<open>\<^verbatim>\<open>obj[names[0]]\<close>: an empty name list gives the property key \<^verbatim>\<open>"undefined"\<close>.\<close>

definition first_name :: "string list \<Rightarrow> string" where
  "first_name names = (case names of [] \<Rightarrow> ''undefined'' | n # _ \<Rightarrow> n)"

text \<open>
  \<^verbatim>\<open>new Float32Array(outputTensor.data)\<close> (line 111). The data of a tensor is the
  typed array of its element type; the copy converts every number to binary32, and
  it throws when the source holds \<^verbatim>\<open>BigInt\<close>s, as the data of an \<^verbatim>\<open>int64\<close> or
  \<^verbatim>\<open>uint64\<close> tensor does. Tensors of strings are not numbers and are left out.
\<close>

definition Float32Array_from :: "engine \<Rightarrow> tensor \<Rightarrow> js_error + jsnum list" where
  "Float32Array_from eng t =
     (if ttype t = ''int64'' \<or> ttype t = ''uint64'' then Inl (TypeError eng BigIntContent)
      else Inr (map fround (tdata t)))"

definition remove_nth :: "nat \<Rightarrow> 'a list \<Rightarrow> 'a list" where
  "remove_nth k xs = take k xs @ drop (Suc k) xs"

text \<open>
  \<^verbatim>\<open>initModel\<close> up to its first \<^verbatim>\<open>await\<close> (line 39): the fetch is started and
  the handler suspends.
\<close>

definition initModel :: "worker \<Rightarrow> string option \<Rightarrow> worker \<times> event list" where
  "initModel w path = (w\<lparr>pending := pending w @ [AwaitFetch path]\<rparr>, [])"

text \<open>The \<^verbatim>\<open>catch\<close> of \<^verbatim>\<open>initModel\<close> (lines 64-69).\<close>

definition initModel_catch :: "js_error \<Rightarrow> event list" where
  "initModel_catch e = [PostMessage (ERROR (''Failed to load model: '' @ message e) None)]"

text \<open>\<^verbatim>\<open>session.handler._backendHint || "unknown"\<close>: an empty hint is falsy too.\<close>

definition provider_label :: "session \<Rightarrow> string" where
  "provider_label s =
     (case backendHint s of
        None \<Rightarrow> ''unknown''
      | Some b \<Rightarrow> if b = [] then ''unknown'' else b)"

text \<open>
  \<^verbatim>\<open>initModel\<close> resumed at the \<open>k\<close>-th suspended handler. A rejection at any of the
  three awaits goes to the \<^verbatim>\<open>catch\<close>; only line 52, after a successful
  \<^verbatim>\<open>InferenceSession.create\<close>, assigns \<^verbatim>\<open>session\<close>.
\<close>

fun initModel_resume :: "worker \<Rightarrow> nat \<Rightarrow> task \<Rightarrow> settlement \<Rightarrow> (worker \<times> event list) option" where
  "initModel_resume w k (AwaitFetch path) (FetchSettled r) =
     (case r of
        Inl e \<Rightarrow> Some (w\<lparr>pending := remove_nth k (pending w)\<rparr>, initModel_catch e)
      | Inr modelResponse \<Rightarrow>
          Some (w\<lparr>pending := (pending w)[k := AwaitArrayBuffer modelResponse]\<rparr>, []))"
| "initModel_resume w k (AwaitArrayBuffer modelResponse) (ArrayBufferSettled r) =
     (case r of
        Inl e \<Rightarrow> Some (w\<lparr>pending := remove_nth k (pending w)\<rparr>, initModel_catch e)
      | Inr modelBuffer \<Rightarrow>
          Some (w\<lparr>pending := (pending w)[k := AwaitCreate modelBuffer sessionOptions]\<rparr>, []))"
| "initModel_resume w k (AwaitCreate modelBuffer opts) (CreateSettled r) =
     (case r of
        Inl e \<Rightarrow> Some (w\<lparr>pending := remove_nth k (pending w)\<rparr>, initModel_catch e)
      | Inr s \<Rightarrow>
          Some (w\<lparr>session := Some s, pending := remove_nth k (pending w)\<rparr>,
                [LogModelLoaded (provider_label s),
                 PostMessage (MODEL_LOADED (inputNames s) (outputNames s))]))"
| "initModel_resume w k _ _ = None"

text \<open>
  The \<^verbatim>\<open>catch\<close> of \<^verbatim>\<open>processFrame\<close> (lines 126-137); it reads the clock once.
\<close>

definition processFrame_catch ::
    "engine \<Rightarrow> worker \<Rightarrow> frame_id option \<Rightarrow> real \<Rightarrow> js_error \<Rightarrow> worker \<times> event list" where
  "processFrame_catch eng w fid startTime e =
     (let errorTime = toFixed2 (double (now eng (ticks w) - startTime))
      in (w\<lparr>ticks := ticks w + 1\<rparr>,
          [ErrorFrame fid errorTime e,
           PostMessage (ERROR (''Processing failed: '' @ message e) fid)]))"

text \<open>
  \<^verbatim>\<open>processFrame\<close> up to \<^verbatim>\<open>await session.run(feeds)\<close> (lines 72-96). \<open>Inl\<close> is an
  exception that leaves the function: the destructuring of line 81 stands before
  the \<^verbatim>\<open>try\<close>. A frame without \<^verbatim>\<open>imageData\<close> fails in the destructuring of line
  141, inside the \<^verbatim>\<open>try\<close>. Elapsed times are binary64 differences.
\<close>

definition processFrame :: "engine \<Rightarrow> worker \<Rightarrow> payload option \<Rightarrow> js_error + worker \<times> event list" where
  "processFrame eng w d =
     (case session w of
        None \<Rightarrow> Inr (w, [PostMessage (ERROR ''Model not initialized'' None)])
      | Some s \<Rightarrow>
          (case d of
             None \<Rightarrow> Inl (TypeError eng (DestructureUndefined ''imageData'' ''data''))
           | Some d \<Rightarrow>
               let fid = frameId d;
                   startTime = now eng (ticks w);
                   preprocessStart = now eng (ticks w + 1)
               in (case imageData d of
                     None \<Rightarrow>
                       (case processFrame_catch eng (w\<lparr>ticks := ticks w + 2\<rparr>) fid startTime
                               (TypeError eng (DestructureUndefined ''data'' ''imageData'')) of
                          (w', evs) \<Rightarrow> Inr (w', LogFrameStarted fid # evs))
                   | Some img \<Rightarrow>
                       let inputTensor = preprocessImageData img;
                           preprocessTime =
                             toFixed2 (double (now eng (ticks w + 2) - preprocessStart));
                           inferenceStart = now eng (ticks w + 3);
                           feeds = [(first_name (inputNames s), inputTensor)];
                           ctx = \<lparr> c_frameId = fid, c_timestamp = timestamp d,
                                   c_startTime = startTime, c_preprocessTime = preprocessTime,
                                   c_inferenceStart = inferenceStart \<rparr>
                       in Inr (w\<lparr>pending := pending w @ [AwaitRun s feeds ctx],
                                 ticks := ticks w + 4\<rparr>,
                               [LogFrameStarted fid]))))"

text \<open>
  \<^verbatim>\<open>processFrame\<close> after the \<^verbatim>\<open>await\<close> (lines 97-137), \<open>w\<close> being the worker with
  this handler already taken off the suspended ones. Line 100 reads the global
  \<^verbatim>\<open>session\<close> again. A missing output leaves \<^verbatim>\<open>outputTensor\<close> undefined, which
  line 111 trips over, as it does over \<^verbatim>\<open>BigInt\<close> data, in both cases after the
  completion line has been logged.
\<close>

definition processFrame_resume ::
    "engine \<Rightarrow> worker \<Rightarrow> frame_ctx \<Rightarrow> js_error + (string \<rightharpoonup> tensor) \<Rightarrow> worker \<times> event list" where
  "processFrame_resume eng w ctx r =
     (case r of
        Inl e \<Rightarrow> processFrame_catch eng w (c_frameId ctx) (c_startTime ctx) e
      | Inr results \<Rightarrow>
          let inferenceTime = toFixed2 (double (now eng (ticks w) - c_inferenceStart ctx))
          in (case session w of
                None \<Rightarrow>
                  processFrame_catch eng (w\<lparr>ticks := ticks w + 1\<rparr>) (c_frameId ctx)
                    (c_startTime ctx) (TypeError eng (ReadOfNull ''outputNames''))
              | Some s \<Rightarrow>
                  let outputName = first_name (outputNames s);
                      outputTensor = results outputName;
                      endTime = now eng (ticks w + 1);
                      totalTime = toFixed2 (double (endTime - c_startTime ctx));
                      logged = LogFrameComplete (c_frameId ctx) totalTime
                                 (c_preprocessTime ctx) inferenceTime;
                      copied =
                        (case outputTensor of
                           None \<Rightarrow> Inl (TypeError eng (ReadOfUndefined ''data''))
                         | Some t \<Rightarrow>
                             (case Float32Array_from eng t of
                                Inl e \<Rightarrow> Inl e
                              | Inr outputData \<Rightarrow> Inr (outputData, dims t)))
                  in (case copied of
                        Inl e \<Rightarrow>
                          (case processFrame_catch eng (w\<lparr>ticks := ticks w + 2\<rparr>) (c_frameId ctx)
                                  (c_startTime ctx) e of
                             (w', evs) \<Rightarrow> (w', logged # evs))
                      | Inr (outputData, outputDims) \<Rightarrow>
                          (w\<lparr>ticks := ticks w + 2\<rparr>,
                           [logged,
                            PostMessage
                              (FRAME_PROCESSED (c_frameId ctx) (c_timestamp ctx)
                                 \<lparr> odata = outputData, odims = outputDims \<rparr>
                                 (JString totalTime))]))))"

text \<open>
  \<^verbatim>\<open>self.onmessage\<close> (lines 13-35) up to the first suspension. An exception caught
  at line 29 is answered with an \<^verbatim>\<open>ERROR\<close> that has no \<^verbatim>\<open>frameId\<close>.
\<close>

definition onmessage :: "engine \<Rightarrow> worker \<Rightarrow> inbound \<Rightarrow> worker \<times> event list" where
  "onmessage eng w m =
     (if mtype m = ''INIT'' then
        (case mdata m of
           None \<Rightarrow>
             (w, [PostMessage (ERROR (message (TypeError eng (ReadOfUndefined ''modelPath''))) None)])
         | Some d \<Rightarrow> initModel w (modelPath d))
      else if mtype m = ''PROCESS_FRAME'' then
        (case processFrame eng w (mdata m) of
           Inl error \<Rightarrow> (w, [PostMessage (ERROR (message error) None)])
         | Inr res \<Rightarrow> res)
      else (w, [WarnUnknownType (mtype m)]))"

text \<open>The continuation of the \<open>k\<close>-th suspended handler.\<close>

definition resume :: "engine \<Rightarrow> worker \<Rightarrow> nat \<Rightarrow> settlement \<Rightarrow> (worker \<times> event list) option" where
  "resume eng w k r =
     (if k < length (pending w) then
        (case (pending w ! k, r) of
           (AwaitRun s feeds ctx, RunSettled res) \<Rightarrow>
             Some (processFrame_resume eng (w\<lparr>pending := remove_nth k (pending w)\<rparr>) ctx res)
         | (t, r') \<Rightarrow> initModel_resume w k t r')
      else None)"

text \<open>One turn of the event loop; \<open>None\<close> when the input cannot occur in this state.\<close>

definition step :: "engine \<Rightarrow> worker \<Rightarrow> input \<Rightarrow> (worker \<times> event list) option" where
  "step eng w inp =
     (case inp of
        Message m \<Rightarrow> Some (onmessage eng w m)
      | Settle k r \<Rightarrow> resume eng w k r)"

fun exec :: "engine \<Rightarrow> worker \<Rightarrow> input list \<Rightarrow> (worker \<times> event list) option" where
  "exec eng w [] = Some (w, [])"
| "exec eng w (inp # inps) =
     (case step eng w inp of
        None \<Rightarrow> None
      | Some (w', evs) \<Rightarrow>
          (case exec eng w' inps of
             None \<Rightarrow> None
           | Some (w'', evs') \<Rightarrow> Some (w'', evs @ evs')))"

text \<open>The two messages of the protocol, as the host sends them.\<close>

definition INIT :: "string \<Rightarrow> inbound" where
  "INIT path =
     \<lparr> mtype = ''INIT'',
       mdata = Some \<lparr> modelPath = Some path, imageData = None, frameId = None, timestamp = None \<rparr> \<rparr>"

definition PROCESS_FRAME :: "image_data \<Rightarrow> frame_id \<Rightarrow> real \<Rightarrow> inbound" where
  "PROCESS_FRAME img fid ts =
     \<lparr> mtype = ''PROCESS_FRAME'',
       mdata = Some \<lparr> modelPath = None, imageData = Some img, frameId = Some fid,
                     timestamp = Some ts \<rparr> \<rparr>"

section \<open>Schedules and concrete inputs\<close>

text \<open>
  A load that succeeds with nothing in between: the \<^verbatim>\<open>INIT\<close> message and the
  three settlements of its handler, which is the \<open>k\<close>-th suspended one.
\<close>

definition load_ok :: "nat \<Rightarrow> string \<Rightarrow> response \<Rightarrow> u8 list \<Rightarrow> session \<Rightarrow> input list" where
  "load_ok k path resp buf s =
     [Message (INIT path),
      Settle k (FetchSettled (Inr resp)),
      Settle k (ArrayBufferSettled (Inr buf)),
      Settle k (CreateSettled (Inr s))]"

text \<open>
  A suspended \<^verbatim>\<open>initModel\<close> and a settlement that rejects the promise it waits for:
  the error of the failed load.
\<close>

fun load_failure :: "task \<Rightarrow> settlement \<Rightarrow> js_error option" where
  "load_failure (AwaitFetch path) (FetchSettled (Inl e)) = Some e"
| "load_failure (AwaitArrayBuffer resp) (ArrayBufferSettled (Inl e)) = Some e"
| "load_failure (AwaitCreate buf opts) (CreateSettled (Inl e)) = Some e"
| "load_failure _ _ = None"

text \<open>
  An engine whose clock advances by 1.25 ms from reading to reading and which words
  its errors in the manner of V8.
\<close>

definition quote :: string where
  "quote = [CHR 0x27]"

fun v8_message :: "type_error_site \<Rightarrow> string" where
  "v8_message (ReadOfUndefined prop) =
     ''Cannot read properties of undefined (reading '' @ quote @ prop @ quote @ '')''"
| "v8_message (ReadOfNull prop) =
     ''Cannot read properties of null (reading '' @ quote @ prop @ quote @ '')''"
| "v8_message (DestructureUndefined prop obj) =
     ''Cannot destructure property '' @ quote @ prop @ quote @ '' of '' @ quote @ obj @ quote
       @ '' as it is undefined.''"
| "v8_message BigIntContent = ''Cannot mix BigInt and other types, use explicit conversions''"

definition engine0 :: engine where
  "engine0 = \<lparr> now = (\<lambda>n. real n * 5 / 4), type_error_message = v8_message \<rparr>"

definition session_a :: session where
  "session_a = \<lparr> handle = 1, inputNames = [''images'', ''sizes''],
                 outputNames = [''output0'', ''output1''], backendHint = Some ''wasm'' \<rparr>"

definition session_b :: session where
  "session_b = \<lparr> handle = 2, inputNames = [''x'', ''scale''], outputNames = [''y'', ''masks''],
                 backendHint = None \<rparr>"

text \<open>The number a plain array holds for a byte.\<close>

definition byte_num :: "u8 \<Rightarrow> jsnum" where
  "byte_num b = Num (real (unat b))"

definition image0 :: image_data where
  "image0 = \<lparr> data = TypedArray [255, 0, 51, 7, 0, 255, 102, 9], width = 2, height = 1 \<rparr>"

text \<open>
  The tensor of \<open>image0\<close>: the binary32 neighbours of \<open>51/255\<close> and \<open>102/255\<close> are
  \<open>0.20000000298023224\<close> and \<open>0.4000000059604645\<close>.
\<close>

definition tensor0 :: tensor where
  "tensor0 = \<lparr> ttype = ''float32'',
               tdata = [Num 1, Num 0, Num 0, Num 1,
                        Num (13421773 / 67108864), Num (13421773 / 33554432)],
               dims = [1, 3, 2, 1] \<rparr>"

definition detections0 :: tensor where
  "detections0 = \<lparr> ttype = ''float32'', tdata = [Num (1 / 2)], dims = [1, 1] \<rparr>"

text \<open>The context of frame 7 of \<open>image0\<close>, started at the first reading of the clock.\<close>

definition ctx0 :: frame_ctx where
  "ctx0 = \<lparr> c_frameId = Some 7, c_timestamp = Some 100, c_startTime = 0,
             c_preprocessTime = ''1.25'', c_inferenceStart = 15 / 4 \<rparr>"

text \<open>The worker with \<open>session_a\<close> loaded and frame 7 in flight on it.\<close>

definition worker_busy :: worker where
  "worker_busy = \<lparr> session = Some session_a,
                   pending = [AwaitRun session_a [(''images'', tensor0)] ctx0],
                   ticks = 4 \<rparr>"

text \<open>A worker whose first load is about to fail, and one that already holds a session.\<close>

definition worker_loading :: worker where
  "worker_loading = \<lparr> session = None, pending = [AwaitCreate [0] sessionOptions], ticks = 0 \<rparr>"

definition worker_reloading :: worker where
  "worker_reloading =
     \<lparr> session = Some session_a, pending = [AwaitCreate [0] sessionOptions], ticks = 0 \<rparr>"

definition worker_ready :: worker where
  "worker_ready = \<lparr> session = Some session_a, pending = [], ticks = 0 \<rparr>"

text \<open>The picture \<open>image0\<close> as it arrives after serialisation, a plain array of numbers.\<close>

definition image0_plain :: image_data where
  "image0_plain =
     \<lparr> data = PlainArray [Num 255, Num 0, Num 51, Num 7, Num 0, Num 255, Num 102, Num 9],
       width = 2, height = 1 \<rparr>"

text \<open>
  What a run of \<open>session_b\<close> resolves with: under its first output name a
  \<^verbatim>\<open>float64\<close> tensor that holds the binary64 neighbour of 0.4, beside tensors under
  its second output name and under the first output name of \<open>session_a\<close>.
\<close>

definition detections64 :: tensor where
  "detections64 = \<lparr> ttype = ''float64'',
                    tdata = [Num (3602879701896397 / 9007199254740992)], dims = [1, 1] \<rparr>"

definition masks0 :: tensor where
  "masks0 = \<lparr> ttype = ''float32'', tdata = [Num 0, Num 1], dims = [2] \<rparr>"

definition results_b :: "string \<rightharpoonup> tensor" where
  "results_b = [''masks'' \<mapsto> masks0, ''output0'' \<mapsto> masks0, ''y'' \<mapsto> detections64]"

section \<open>Rounding keeps the unit interval\<close>

text \<open>
  Rounding a number between 0 and 1 stays between 0 and 1, in either format: the two
  ends are values of the format.
\<close>

lemma round_half_even_le:
  assumes "y \<le> real_of_int k"
  shows "round_half_even y \<le> k"
proof -
  have f: "\<lfloor>y\<rfloor> \<le> k" using assms by (simp add: floor_le_iff)
  show ?thesis
  proof (cases "\<lfloor>y\<rfloor> = k")
    case True
    with assms have "y = real_of_int \<lfloor>y\<rfloor>"
      using of_int_floor_le[of y] by simp
    then have "y < real_of_int \<lfloor>y\<rfloor> + 1 / 2" by linarith
    then show ?thesis using f by (simp add: round_half_even_def Let_def)
  next
    case False
    with f have "\<lfloor>y\<rfloor> + 1 \<le> k" by simp
    with f show ?thesis by (simp add: round_half_even_def Let_def)
  qed
qed

lemma round_half_even_nonneg:
  assumes "0 \<le> y"
  shows "0 \<le> round_half_even y"
proof -
  have "0 \<le> \<lfloor>y\<rfloor>" using assms by simp
  then show ?thesis by (simp add: round_half_even_def Let_def)
qed

lemma round_half_even_close: "\<bar>real_of_int (round_half_even y) - y\<bar> \<le> 1 / 2"
proof -
  have "real_of_int \<lfloor>y\<rfloor> \<le> y" "y < real_of_int \<lfloor>y\<rfloor> + 1" by linarith+
  then show ?thesis by (auto simp: round_half_even_def Let_def)
qed

lemma bit_length_nonneg: "0 \<le> bit_length n"
  by (induction n rule: bit_length.induct) (subst bit_length.simps, simp)

lemma bit_length_bounds:
  "0 < n \<Longrightarrow> 2 ^ nat (bit_length n - 1) \<le> n \<and> n < 2 ^ nat (bit_length n)"
proof (induction n rule: bit_length.induct)
  case (1 n)
  show ?case
  proof (cases "n = 1")
    case True
    have "bit_length 1 = 1"
      by (subst bit_length.simps, simp, subst bit_length.simps, simp)
    with True show ?thesis by simp
  next
    case False
    with "1.prems" have h: "0 < n div 2" by simp
    with "1.prems" "1.IH" have IH: "2 ^ nat (bit_length (n div 2) - 1) \<le> n div 2"
      "n div 2 < 2 ^ nat (bit_length (n div 2))" by simp_all
    have bl: "bit_length n = bit_length (n div 2) + 1"
      using "1.prems" by (subst bit_length.simps) simp
    have pos: "1 \<le> bit_length (n div 2)"
      using h bit_length_nonneg[of "n div 2 div 2"] by (subst bit_length.simps) simp
    have e1: "nat (bit_length (n div 2)) = Suc (nat (bit_length (n div 2) - 1))"
      using pos by simp
    have "2 * 2 ^ nat (bit_length (n div 2) - 1) \<le> 2 * (n div 2)" using IH(1) by simp
    also have "\<dots> \<le> n" by simp
    finally have lo: "2 ^ nat (bit_length (n div 2)) \<le> n" by (simp add: e1)
    have "n < 2 * (n div 2) + 2" by presburger
    also have "\<dots> \<le> 2 * 2 ^ nat (bit_length (n div 2))" using IH(2) by simp
    finally have hi: "n < 2 ^ Suc (nat (bit_length (n div 2)))" by simp
    have e2: "nat (bit_length (n div 2) + 1) = Suc (nat (bit_length (n div 2)))"
      using pos by simp
    from lo hi show ?thesis by (simp add: bl e2)
  qed
qed

lemma binade_le_0:
  assumes "0 < x" and "x \<le> 1"
  shows "binade x \<le> 0"
proof (cases "x = 1")
  case True
  have "bit_length 1 = 1"
    by (subst bit_length.simps, simp, subst bit_length.simps, simp)
  with True show ?thesis by (simp add: binade_def)
next
  case False
  with assms have "\<not> 1 \<le> x" by simp
  then show ?thesis using bit_length_nonneg by (simp add: binade_def)
qed

lemma pow2_pos: "0 < pow2 e"
  by (simp add: pow2_def)

lemma round_binary_unit:
  assumes "0 \<le> x" and "x \<le> 1" and "emin \<le> 0" and "0 < p"
  shows "0 \<le> round_binary p emin x \<and> round_binary p emin x \<le> 1"
proof (cases "x = 0")
  case True
  then show ?thesis by (simp add: round_binary_def)
next
  case False
  with assms have pos: "0 < x" by simp
  define e where "e = max (binade \<bar>x\<bar>) emin"
  define m where "m = nat (int p - 1 - e)"
  have e0: "e \<le> 0" using binade_le_0[OF pos assms(2)] assms(3) pos by (simp add: e_def)
  have q: "pow2 (e - int p + 1) = 1 / 2 ^ m"
    using e0 assms(4) by (auto simp: pow2_def m_def)
  have ax: "\<bar>x\<bar> = x" using pos by simp
  have "round_binary p emin x =
          sgn x * real_of_int (round_half_even (\<bar>x\<bar> / pow2 (e - int p + 1))) * pow2 (e - int p + 1)"
    using False by (simp only: round_binary_def Let_def e_def if_False)
  then have rb: "round_binary p emin x = real_of_int (round_half_even (x * 2 ^ m)) / 2 ^ m"
    using pos by (simp add: q ax)
  have "x * 2 ^ m \<le> real_of_int (2 ^ m)" using assms(2) by simp
  then have "round_half_even (x * 2 ^ m) \<le> 2 ^ m" by (rule round_half_even_le)
  then have "real_of_int (round_half_even (x * 2 ^ m)) \<le> real_of_int (2 ^ m)"
    by (simp only: of_int_le_iff)
  then have up: "real_of_int (round_half_even (x * 2 ^ m)) / 2 ^ m \<le> 1"
    by (simp add: divide_le_eq)
  have "0 \<le> round_half_even (x * 2 ^ m)" using pos by (intro round_half_even_nonneg) simp
  then have "0 \<le> real_of_int (round_half_even (x * 2 ^ m)) / 2 ^ m" by simp
  with up rb show ?thesis by simp
qed

lemma fround_unit:
  assumes "0 \<le> x" and "x \<le> 1"
  shows "\<exists>y. fround (Num x) = Num y \<and> 0 \<le> y \<and> y \<le> 1"
proof -
  have r: "0 \<le> round_binary 24 (- 126) x \<and> round_binary 24 (- 126) x \<le> 1"
    using assms by (intro round_binary_unit) simp_all
  then have "\<bar>round_binary 24 (- 126) x\<bar> < 2 ^ 128" by simp
  with r show ?thesis by (simp add: fround_def Let_def)
qed

lemma double_unit:
  assumes "0 \<le> x" and "x \<le> 1"
  shows "0 \<le> double x \<and> double x \<le> 1"
  unfolding double_def using assms by (intro round_binary_unit) simp_all

text \<open>
  What the definitions compute: \<open>binade\<close> is the binary exponent, and
  \<open>round_binary\<close> yields a multiple of the spacing at that exponent which is within
  half a spacing of its argument.
\<close>

lemma binade_bounds:
  assumes "0 < x"
  shows "pow2 (binade x) \<le> x \<and> x < pow2 (binade x + 1)"
proof (cases "1 \<le> x")
  case True
  define n where "n = \<lfloor>x\<rfloor>"
  have n1: "1 \<le> n" using True by (simp add: n_def le_floor_iff)
  then have n0: "0 < n" by simp
  from bit_length_bounds[OF n0] have lo: "2 ^ nat (bit_length n - 1) \<le> n"
    and hi: "n < 2 ^ nat (bit_length n)" by simp_all
  have bl: "1 \<le> bit_length n"
    using n0 bit_length_nonneg[of "n div 2"] by (subst bit_length.simps) simp
  have b: "binade x = bit_length n - 1" using True by (simp add: binade_def n_def)
  have "real_of_int (2 ^ nat (bit_length n - 1)) \<le> real_of_int n"
    using lo by (simp only: of_int_le_iff)
  also have "real_of_int n \<le> x" by (simp add: n_def)
  finally have l: "pow2 (binade x) \<le> x" using bl by (simp add: b pow2_def)
  from hi have "n + 1 \<le> 2 ^ nat (bit_length n)" by simp
  then have "real_of_int (n + 1) \<le> real_of_int (2 ^ nat (bit_length n))"
    by (simp only: of_int_le_iff)
  moreover have "x < real_of_int (n + 1)" by (simp add: n_def)
  ultimately have "x < 2 ^ nat (bit_length n)" by simp
  then have "x < pow2 (binade x + 1)" using bl by (simp add: b pow2_def)
  with l show ?thesis by simp
next
  case False
  with assms have x1: "x < 1" by simp
  define m where "m = \<lceil>1 / x\<rceil>"
  define k where "k = bit_length (m - 1)"
  have inv: "1 < 1 / x" using assms x1 by simp
  then have m2: "2 \<le> m" unfolding m_def by (simp add: le_ceiling_iff)
  then have m0: "0 < m - 1" by simp
  from bit_length_bounds[OF m0] have lo: "2 ^ nat (k - 1) \<le> m - 1"
    and hi: "m - 1 < 2 ^ nat k" by (simp_all add: k_def)
  have k1: "1 \<le> k"
    unfolding k_def using m0 bit_length_nonneg[of "(m - 1) div 2"]
    by (subst bit_length.simps) simp
  have b: "binade x = - k" using False by (simp add: binade_def m_def k_def)
  from hi have "m \<le> 2 ^ nat k" by simp
  then have "real_of_int m \<le> real_of_int (2 ^ nat k)" by (simp only: of_int_le_iff)
  then have "real_of_int m \<le> 2 ^ nat k" by simp
  moreover have "1 / x \<le> real_of_int m" unfolding m_def by (rule le_of_int_ceiling)
  ultimately have "1 / x \<le> 2 ^ nat k" by (rule order_trans[rotated])
  then have "1 \<le> 2 ^ nat k * x" using assms by (simp add: divide_le_eq mult.commute)
  then have l: "1 / 2 ^ nat k \<le> x" by (simp add: divide_le_eq mult.commute)
  have "real_of_int (2 ^ nat (k - 1)) \<le> real_of_int (m - 1)"
    using lo by (simp only: of_int_le_iff)
  then have "2 ^ nat (k - 1) \<le> real_of_int (m - 1)" by simp
  moreover have "real_of_int (m - 1) < 1 / x"
    unfolding m_def using ceiling_correct[of "1 / x"] by simp
  ultimately have "2 ^ nat (k - 1) < 1 / x" by (rule le_less_trans)
  then have "2 ^ nat (k - 1) * x < 1" using assms by (simp add: less_divide_eq)
  then have u: "x < 1 / 2 ^ nat (k - 1)" by (simp add: less_divide_eq mult.commute)
  have e: "nat (k - 1) = nat k - 1" using k1 by simp
  have "x < pow2 (- k + 1)"
  proof (cases "k = 1")
    case True
    with u show ?thesis by (simp add: pow2_def)
  next
    case False
    with k1 have "\<not> 0 \<le> - k + 1" by simp
    moreover have "nat (- (- k + 1)) = nat (k - 1)" by simp
    ultimately show ?thesis using u by (simp add: pow2_def)
  qed
  moreover have "pow2 (- k) = 1 / 2 ^ nat k" using k1 by (simp add: pow2_def)
  ultimately show ?thesis using l by (simp add: b)
qed

lemma round_binary_multiple:
  "\<exists>n. round_binary p emin x = real_of_int n * pow2 (max (binade \<bar>x\<bar>) emin - int p + 1)"
proof (cases "x = 0")
  case True
  then have "round_binary p emin x = real_of_int 0 * pow2 (max (binade \<bar>x\<bar>) emin - int p + 1)"
    by (simp add: round_binary_def)
  then show ?thesis by blast
next
  case False
  define q where "q = pow2 (max (binade \<bar>x\<bar>) emin - int p + 1)"
  have "round_binary p emin x = sgn x * real_of_int (round_half_even (\<bar>x\<bar> / q)) * q"
    using False by (simp only: round_binary_def Let_def q_def if_False)
  moreover have "sgn x = 1 \<or> sgn x = - 1" using False by (auto simp: sgn_if)
  ultimately have "round_binary p emin x = real_of_int (round_half_even (\<bar>x\<bar> / q)) * q
      \<or> round_binary p emin x = real_of_int (- round_half_even (\<bar>x\<bar> / q)) * q"
    by auto
  then show ?thesis unfolding q_def by blast
qed

lemma round_binary_close:
  "\<bar>round_binary p emin x - x\<bar> \<le> pow2 (max (binade \<bar>x\<bar>) emin - int p + 1) / 2"
proof (cases "x = 0")
  case True
  then show ?thesis using pow2_pos[of "max (binade \<bar>x\<bar>) emin - int p + 1"]
    by (simp add: round_binary_def)
next
  case False
  define q where "q = pow2 (max (binade \<bar>x\<bar>) emin - int p + 1)"
  define y where "y = \<bar>x\<bar> / q"
  have q0: "0 < q" unfolding q_def by (rule pow2_pos)
  have r: "round_binary p emin x = sgn x * real_of_int (round_half_even y) * q"
    using False by (simp only: round_binary_def Let_def q_def y_def if_False)
  have x: "x = sgn x * y * q" using q0 by (simp add: y_def sgn_if)
  have "round_binary p emin x - x = sgn x * real_of_int (round_half_even y) * q - sgn x * y * q"
    by (simp only: r x[symmetric])
  then have "round_binary p emin x - x = sgn x * q * (real_of_int (round_half_even y) - y)"
    by (simp add: algebra_simps)
  then have "\<bar>round_binary p emin x - x\<bar> = q * \<bar>real_of_int (round_half_even y) - y\<bar>"
    using False q0 by (simp add: abs_mult sgn_if)
  also have "\<dots> \<le> q * (1 / 2)"
    using q0 round_half_even_close[of y] by (intro mult_left_mono) simp_all
  finally show ?thesis by (simp add: q_def)
qed

text \<open>Values at the edges: ties, subnormal numbers, overflow, clamping.\<close>

lemma fround_edges:
  "fround (Num (1 / 2 ^ 150)) = Num 0"
  "fround (Num (3 / 2 ^ 150)) = Num (1 / 2 ^ 148)"
  "fround (Num (2 ^ 128 - 2 ^ 103)) = PosInf"
  "fround (Num (- (2 ^ 128 - 2 ^ 103 - 1))) = Num (- (2 ^ 128 - 2 ^ 104))"
  "fround (Num (- 7 / 3)) = Num (- 9786709 / 4194304)"
  "fround NaN = NaN"
  by (simp_all add: double_def fround_def round_binary_def binade_def bit_length.simps pow2_def
      round_half_even_def Let_def)

lemma ToUint8Clamp_edges:
  "ToUint8Clamp (Num (5 / 2)) = 2"
  "ToUint8Clamp (Num (7 / 2)) = 4"
  "ToUint8Clamp (Num (13 / 5)) = 3"
  "ToUint8Clamp (Num 300) = 255"
  "ToUint8Clamp (Num (- 2)) = 0"
  "ToUint8Clamp NaN = 0"
  by (simp_all add: ToUint8Clamp_def Let_def)

lemma toFixed2_edges:
  "toFixed2 (double (1 / 8 - 1 / 2 ^ 60)) = ''0.13''"
  "toFixed2 (double (2469 / 2)) = ''1234.50''"
  "toFixed2 (- (1 / 1000)) = ''-0.00''"
  by (simp_all add: double_def round_binary_def binade_def bit_length.simps pow2_def
      round_half_even_def toFixed2_def dec.simps digit_def Let_def)

section \<open>The codec is a planar re-layout\<close>

lemma length_typed_set [simp]: "length (typed_set a j v) = length a"
  by (simp add: typed_set_def)

lemma length_encode_loop [simp]: "length (encode_loop px w h i out) = length out"
proof (induction px w h i out rule: encode_loop.induct)
  case (1 px w h i out)
  show ?case
  proof (cases "real i < real (length px) / 4")
    case True
    with "1.IH" show ?thesis
      by (subst encode_loop.simps) (simp add: Let_def)
  next
    case False
    then show ?thesis by (subst encode_loop.simps) simp
  qed
qed

lemma nth_typed_set:
  "(typed_set a j v) ! n = (if n = j \<and> j < length a then fround v else a ! n)"
  by (simp add: typed_set_def)

lemma loop_guard_exact:
  "length px = w * h * 4 \<Longrightarrow> (real i < real (length px) / 4) = (i < w * h)"
proof -
  assume "length px = w * h * 4"
  then have "real (length px) / 4 = real (w * h)" by simp
  then show ?thesis by (simp only: of_nat_less_iff)
qed

lemma encode_loop_planes:
  assumes "length px = w * h * 4" and "length out = 3 * w * h" and "i < w * h" and "k < 3"
  shows "encode_loop px w h i0 out ! (i + k * (w * h)) =
           (if i0 \<le> i then fround (Num (double (real (unat (px ! (4 * i + k))) / 255)))
            else out ! (i + k * (w * h)))"
  using assms
proof (induction px w h i0 out rule: encode_loop.induct)
  case (1 px w h i0 out)
  let ?n = "w * h"
  show ?case
  proof (cases "real i0 < real (length px) / 4")
    case False
    with "1.prems"(1) have "\<not> i0 < w * h" by (simp only: loop_guard_exact)
    with "1.prems"(3) have "\<not> i0 \<le> i" by simp
    with False show ?thesis by (subst encode_loop.simps) simp
  next
    case True
    with "1.prems" have lt: "i0 < ?n" by (simp only: loop_guard_exact)
    define out3 where "out3 = typed_set (typed_set (typed_set out i0 (div255 (typed_get px (i0 * 4))))
         (i0 + w * h) (div255 (typed_get px (i0 * 4 + 1)))) (i0 + 2 * w * h) (div255 (typed_get px (i0 * 4 + 2)))"
    have unf: "encode_loop px w h i0 out = encode_loop px w h (i0 + 1) out3"
      using True by (subst encode_loop.simps) (simp add: Let_def out3_def)
    have len3: "length out3 = 3 * w * h" using "1.prems" by (simp add: out3_def)
    have IH: "encode_loop px w h (i0 + 1) out3 ! (i + k * ?n) =
           (if i0 + 1 \<le> i then fround (Num (double (real (unat (px ! (4 * i + k))) / 255)))
            else out3 ! (i + k * ?n))"
      using "1.IH"[OF True refl refl refl refl refl refl "1.prems"(1) _ "1.prems"(3,4)] len3
      by (simp add: out3_def)
    have k_cases: "k = 0 \<or> k = 1 \<or> k = 2" using "1.prems" by auto
    have rd: "\<And>c. c < 3 \<Longrightarrow>
        div255 (typed_get px (i0 * 4 + c)) = Num (double (real (unat (px ! (4 * i0 + c))) / 255))"
      using lt "1.prems"(1) by (simp add: div255_def typed_get_def mult.commute)
    define n where "n = w * h"
    have out3_n: "out3 = typed_set (typed_set (typed_set out i0 (div255 (typed_get px (i0 * 4))))
         (i0 + n) (div255 (typed_get px (i0 * 4 + 1)))) (i0 + 2 * n) (div255 (typed_get px (i0 * 4 + 2)))"
      by (simp add: out3_def n_def mult.assoc)
    have facts: "i0 < n" "i < n" "length out = 3 * n"
      using lt "1.prems" by (simp_all add: n_def)
    have "out3 ! (i + k * n) =
        (if i = i0 then fround (Num (double (real (unat (px ! (4 * i + k))) / 255)))
         else out ! (i + k * n))"
      using k_cases facts rd[of 0] rd[of 1] rd[of 2]
      unfolding out3_n by (auto simp: nth_typed_set)
    then have out3_at: "out3 ! (i + k * ?n) =
        (if i = i0 then fround (Num (double (real (unat (px ! (4 * i + k))) / 255)))
         else out ! (i + k * ?n))"
      by (simp add: n_def)
    show ?thesis
      unfolding unf IH out3_at by auto
  qed
qed

lemma tdata_preprocess:
  "tdata (preprocessImageData img) =
     encode_loop (pixelData_of (data img)) (width img) (height img) 0
       (replicate (3 * width img * height img) (Num 0))"
  by (simp add: preprocessImageData_def Let_def)

lemma plane_index:
  assumes "j < 3 * (n::nat)"
  shows "j mod n < n \<and> j div n < 3 \<and> j = j mod n + (j div n) * n"
proof -
  from assms have "0 < n" by (cases n) auto
  moreover from assms have "j div n < 3"
    by (simp add: less_mult_imp_div_less mult.commute)
  ultimately show ?thesis by simp
qed

lemma byte_quotient_unit: "0 \<le> real (unat (b :: u8)) / 255 \<and> real (unat b) / 255 \<le> 1"
proof -
  have "unat b < 2 ^ 8" using unsigned_less[of b] by simp
  then have "unat b \<le> 255" by simp
  then have "real (unat b) \<le> real 255" by (rule of_nat_mono)
  moreover have "0 \<le> real (unat b)" by (rule of_nat_0_le_iff)
  ultimately show ?thesis by simp
qed

lemma stored_byte_unit:
  "\<exists>x. fround (Num (double (real (unat (b :: u8)) / 255))) = Num x \<and> 0 \<le> x \<and> x \<le> 1"
proof -
  have "0 \<le> double (real (unat b) / 255) \<and> double (real (unat b) / 255) \<le> 1"
    using byte_quotient_unit[of b] by (intro double_unit) simp_all
  then show ?thesis by (intro fround_unit) simp_all
qed

text \<open>
  A plain array that holds bytes is converted to the same bytes by
  \<^verbatim>\<open>new Uint8ClampedArray(data)\<close>.
\<close>

lemma ToUint8Clamp_byte: "ToUint8Clamp (byte_num b) = b"
proof -
  define x where "x = real (unat b)"
  have unf: "ToUint8Clamp (byte_num b) =
      (if x \<le> 0 then 0
       else if 255 \<le> x then 255
       else
         let f = \<lfloor>x\<rfloor> in
         if real_of_int f + 1 / 2 < x then of_int (f + 1)
         else if x < real_of_int f + 1 / 2 then of_int f
         else if even f then of_int f
         else of_int (f + 1))"
    by (simp only: ToUint8Clamp_def byte_num_def jsnum.case x_def)
  have lt: "unat b < 256" using unsigned_less[of b] by simp
  have fl: "\<lfloor>x\<rfloor> = int (unat b)" unfolding x_def by (rule floor_of_nat)
  have rt: "(of_int (int (unat b)) :: u8) = b" by simp
  show ?thesis
  proof (cases "unat b = 0")
    case True
    then have "x \<le> 0" unfolding x_def by (simp only: of_nat_0)
    moreover from True have "b = 0" by (simp add: unat_eq_0)
    ultimately show ?thesis unfolding unf by simp
  next
    case nz: False
    then have "0 < unat b" by simp
    then have "0 < x" unfolding x_def by (simp only: of_nat_0_less_iff)
    then have n0: "\<not> x \<le> 0" by simp
    show ?thesis
    proof (cases "unat b = 255")
      case True
      then have "255 \<le> x" unfolding x_def by (simp only: of_nat_numeral)
      moreover from True have "b = 255" by (simp add: word_unat_eq_iff)
      ultimately show ?thesis unfolding unf using n0 by simp
    next
      case False
      with lt have "unat b < 255" by simp
      then have "real (unat b) < real 255" by (simp only: of_nat_less_iff)
      then have n255: "\<not> 255 \<le> x" unfolding x_def by simp
      have a: "x = real_of_int \<lfloor>x\<rfloor>"
        by (simp only: x_def floor_of_nat of_int_of_nat_eq)
      then have b1: "\<not> real_of_int \<lfloor>x\<rfloor> + 1 / 2 < x" and b2: "x < real_of_int \<lfloor>x\<rfloor> + 1 / 2"
        by linarith+
      have "ToUint8Clamp (byte_num b) = of_int \<lfloor>x\<rfloor>"
        unfolding unf using n0 n255 b1 b2 by (simp add: Let_def)
      then show ?thesis unfolding fl using rt by simp
    qed
  qed
qed

lemma pixelData_of_bytes:
  assumes "d = TypedArray px \<or> d = PlainArray (map byte_num px)"
  shows "pixelData_of d = px"
  using assms by (auto simp: pixelData_of_def ToUint8Clamp_byte map_idI)

lemma preprocess_plane:
  assumes "pixelData_of (data img) = px" and "length px = width img * height img * 4"
    and "i < width img * height img" and "k < 3"
  shows "tdata (preprocessImageData img) ! (i + k * (width img * height img)) =
           fround (Num (double (real (unat (px ! (4 * i + k))) / 255)))"
  using encode_loop_planes[of px "width img" "height img" "replicate (3 * width img * height img) (Num 0)" i k 0]
    assms
  by (simp add: tdata_preprocess)

text \<open>
  C1, amended. For every pixel buffer \<open>px\<close> of \<open>width * height * 4\<close> bytes, handed
  over as a typed array or as a plain array of the same bytes,
  \<^verbatim>\<open>preprocessImageData\<close> returns exactly \<open>3 * width * height\<close> numbers, each of
  them in \<open>[0, 1]\<close>; for every pixel \<open>i\<close> and channel \<open>k < 3\<close> the number at
  \<open>i + k * width * height\<close> is the binary32 value nearest to the binary64 quotient
  \<^verbatim>\<open>px[4 * i + k] / 255.0\<close>; and the alpha bytes are not used: two buffers of this
  size that agree on all colour bytes give the same tensor.
\<close>

theorem C1_encode_planar:
  assumes "data img = TypedArray px \<or> data img = PlainArray (map byte_num px)"
    and "length px = width img * height img * 4"
  shows "length (tdata (preprocessImageData img)) = 3 * width img * height img
       \<and> (\<forall>j < 3 * width img * height img.
             \<exists>x. tdata (preprocessImageData img) ! j = Num x \<and> 0 \<le> x \<and> x \<le> 1)
       \<and> (\<forall>i < width img * height img. \<forall>k < 3.
             tdata (preprocessImageData img) ! (i + k * (width img * height img)) =
               fround (Num (double (real (unat (px ! (4 * i + k))) / 255))))
       \<and> (\<forall>img' px'.
             (data img' = TypedArray px' \<or> data img' = PlainArray (map byte_num px'))
             \<and> width img' = width img \<and> height img' = height img
             \<and> length px' = length px
             \<and> (\<forall>i < width img * height img. \<forall>k < 3. px' ! (4 * i + k) = px ! (4 * i + k))
             \<longrightarrow> preprocessImageData img' = preprocessImageData img)"
proof -
  let ?n = "width img * height img"
  let ?out = "tdata (preprocessImageData img)"
  have pd: "pixelData_of (data img) = px"
    using assms(1) by (rule pixelData_of_bytes)
  have len: "length ?out = 3 * ?n"
    by (simp add: tdata_preprocess mult.assoc)
  have len3: "length ?out = 3 * width img * height img"
    using len by (simp add: mult.assoc)
  have planes: "?out ! (i + k * ?n) = fround (Num (double (real (unat (px ! (4 * i + k))) / 255)))"
    if "i < ?n" "k < 3" for i k
    using preprocess_plane[OF pd assms(2) that] .
  have range: "\<exists>x. ?out ! j = Num x \<and> 0 \<le> x \<and> x \<le> 1" if "j < 3 * ?n" for j
  proof -
    from plane_index[OF that] have a: "j mod ?n < ?n" "j div ?n < 3"
      and j: "j = j mod ?n + (j div ?n) * ?n" by simp_all
    have "?out ! (j mod ?n + (j div ?n) * ?n) =
            fround (Num (double (real (unat (px ! (4 * (j mod ?n) + j div ?n))) / 255)))"
      using planes[OF a] .
    with j have "?out ! j = fround (Num (double (real (unat (px ! (4 * (j mod ?n) + j div ?n))) / 255)))"
      by simp
    then show ?thesis using stored_byte_unit by simp
  qed
  have alpha: "preprocessImageData img' = preprocessImageData img"
    if d': "data img' = TypedArray px' \<or> data img' = PlainArray (map byte_num px')"
      and w: "width img' = width img" and h: "height img' = height img"
      and l: "length px' = length px"
      and eq: "\<forall>i < ?n. \<forall>k < 3. px' ! (4 * i + k) = px ! (4 * i + k)"
    for img' px'
  proof -
    let ?out' = "tdata (preprocessImageData img')"
    have pd': "pixelData_of (data img') = px'"
      using d' by (rule pixelData_of_bytes)
    have len': "length ?out' = 3 * ?n"
      by (simp add: tdata_preprocess mult.assoc w h)
    have l': "length px' = width img' * height img' * 4"
      using l assms(2) w h by simp
    have "?out' ! j = ?out ! j" if "j < 3 * ?n" for j
    proof -
      from plane_index[OF that] have a: "j mod ?n < ?n" "j div ?n < 3"
        and j: "j = j mod ?n + (j div ?n) * ?n" by simp_all
      from a have a': "j mod ?n < width img' * height img'" by (simp add: w h)
      have "?out' ! (j mod ?n + (j div ?n) * ?n) =
              fround (Num (double (real (unat (px' ! (4 * (j mod ?n) + j div ?n))) / 255)))"
        using preprocess_plane[OF pd' l' a' a(2)] by (simp add: w h)
      also have "\<dots> = fround (Num (double (real (unat (px ! (4 * (j mod ?n) + j div ?n))) / 255)))"
        using eq a by simp
      also have "\<dots> = ?out ! (j mod ?n + (j div ?n) * ?n)"
        using planes[OF a] by simp
      finally show ?thesis using j by simp
    qed
    with len len' have "?out' = ?out"
      by (simp add: list_eq_iff_nth_eq)
    then show ?thesis
      by (simp add: preprocessImageData_def Let_def w h)
  qed
  have range3: "\<forall>j < 3 * width img * height img. \<exists>x. ?out ! j = Num x \<and> 0 \<le> x \<and> x \<le> 1"
    using range by (simp add: mult.assoc)
  from len3 range3 planes alpha show ?thesis
    by blast
qed

text \<open>The picture \<open>image0\<close> evaluated: its six colour bytes, plane by plane.\<close>

lemmas float_defs =
  double_def fround_def round_binary_def binade_def bit_length.simps pow2_def round_half_even_def

lemma replicate6: "replicate 6 x = [x, x, x, x, x, x]"
  by (simp add: eval_nat_numeral)

lemma double_fifths:
  "double (1 / 5) = 3602879701896397 / 18014398509481984"
  "double (2 / 5) = 3602879701896397 / 9007199254740992"
  by (simp_all add: float_defs Let_def)

lemma stored_bytes:
  "fround (Num (double 1)) = Num 1"
  "fround (Num (double 0)) = Num 0"
  "fround (Num (double (1 / 5))) = Num (13421773 / 67108864)"
  "fround (Num (double (2 / 5))) = Num (13421773 / 33554432)"
  by (simp_all add: float_defs Let_def)

lemma double_quotient_102: "div255 (Some 102) = Num (3602879701896397 / 9007199254740992)"
  by (simp add: div255_def double_fifths)

lemma preprocess_image0: "preprocessImageData image0 = tensor0"
  by (simp add: preprocessImageData_def image0_def tensor0_def pixelData_of_def Let_def
      encode_loop.simps typed_get_def typed_set_def div255_def replicate6 stored_bytes)

lemma preprocess_image0_plain: "preprocessImageData image0_plain = tensor0"
  by (simp add: preprocessImageData_def image0_plain_def tensor0_def pixelData_of_def Let_def
      ToUint8Clamp_def encode_loop.simps typed_get_def typed_set_def div255_def replicate6
      stored_bytes)

lemma replicate3: "replicate 3 x = [x, x, x]"
  by (simp add: eval_nat_numeral)

text \<open>
  A buffer too long for the declared size is not refused: the second pixel overwrites
  the green and blue of the first.
\<close>

lemma preprocess_too_long:
  "preprocessImageData
     \<lparr> data = TypedArray [255, 0, 51, 7, 0, 255, 102, 9], width = 1, height = 1 \<rparr> =
   \<lparr> ttype = ''float32'', tdata = [Num 1, Num 0, Num 1], dims = [1, 3, 1, 1] \<rparr>"
  by (simp add: preprocessImageData_def pixelData_of_def Let_def encode_loop.simps typed_get_def
      typed_set_def div255_def stored_bytes replicate3)

text \<open>
  C1 as stated does not hold: the blue byte of pixel 1 of \<open>image0\<close> is 102, and the
  number at index \<open>1 + 2 * width * height\<close> of the tensor is
  \<open>13421773 / 33554432\<close>, the binary32 neighbour of 0.4, not the number
  \<^verbatim>\<open>102 / 255.0\<close> of JavaScript.
\<close>

theorem C1_counterexample:
  "pixelData_of (data image0) ! (4 * 1 + 2) = 102
   \<and> div255 (Some 102) = Num (3602879701896397 / 9007199254740992)
   \<and> tdata (preprocessImageData image0) ! (1 + 2 * (width image0 * height image0)) =
       Num (13421773 / 33554432)
   \<and> tdata (preprocessImageData image0) ! (1 + 2 * (width image0 * height image0)) \<noteq>
       div255 (Some 102)"
  by (simp add: preprocess_image0 double_quotient_102)
    (simp add: image0_def tensor0_def pixelData_of_def)

text \<open>
  C1, amended, at a picture of two pixels that arrives as a plain array: the blue
  byte 102 of pixel 1 lands at index 5.
\<close>

theorem C1_encode_planar_witness:
  "(data image0_plain = TypedArray [255, 0, 51, 7, 0, 255, 102, 9]
      \<or> data image0_plain = PlainArray (map byte_num [255, 0, 51, 7, 0, 255, 102, 9]))
   \<and> length [255, 0, 51, 7, 0, 255, 102, 9 :: u8] = width image0_plain * height image0_plain * 4
   \<and> length (tdata (preprocessImageData image0_plain)) = 6
   \<and> tdata (preprocessImageData image0_plain) ! 5 = Num (13421773 / 33554432)"
proof -
  have h1: "data image0_plain = TypedArray [255, 0, 51, 7, 0, 255, 102, 9]
      \<or> data image0_plain = PlainArray (map byte_num [255, 0, 51, 7, 0, 255, 102, 9])"
    by (simp add: image0_plain_def byte_num_def)
  have h2: "length [255, 0, 51, 7, 0, 255, 102, 9 :: u8] = width image0_plain * height image0_plain * 4"
    by (simp add: image0_plain_def)
  note c = C1_encode_planar[OF h1 h2]
  have "length (tdata (preprocessImageData image0_plain)) = 6"
    using c[THEN conjunct1] by (simp add: image0_plain_def)
  moreover have "tdata (preprocessImageData image0_plain) ! 5 = Num (13421773 / 33554432)"
    using c[THEN conjunct2, THEN conjunct2, THEN conjunct1, rule_format, of 1 2]
    by (simp add: image0_plain_def stored_bytes)
  ultimately show ?thesis using h1 h2 by blast
qed

section \<open>Single turns of the event loop\<close>

text \<open>
  What one turn of the event loop does in each situation, read off the handlers by
  unfolding them.
\<close>

text \<open>The elapsed times of the runs below are exact in binary64.\<close>

lemma double_quarters:
  "double (5 / 4) = 5 / 4"
  "double (25 / 4) = 25 / 4"
  "double (15 / 2) = 15 / 2"
  by (simp_all add: float_defs Let_def)

lemma fround_half: "fround (Num (1 / 2)) = Num (1 / 2)"
  by (simp add: float_defs Let_def)

lemma fround_double_fifth:
  "fround (Num (3602879701896397 / 9007199254740992)) = Num (13421773 / 33554432)"
  by (simp add: float_defs Let_def)

lemmas handler_defs =
  step_def onmessage_def initModel_def resume_def remove_nth_def processFrame_def
  processFrame_resume_def processFrame_catch_def initModel_catch_def first_name_def
  provider_label_def TypeError_def Float32Array_from_def

lemmas format_defs = toFixed2_def dec.simps digit_def double_quarters fround_half

lemma step_init:
  "step eng w (Message (INIT path)) = Some (w\<lparr>pending := pending w @ [AwaitFetch (Some path)]\<rparr>, [])"
  by (simp add: step_def onmessage_def INIT_def initModel_def)

lemma step_frame_start:
  assumes "session w = Some s"
  shows "step eng w (Message (PROCESS_FRAME img fid ts)) =
           Some (w\<lparr>pending := pending w @
                     [AwaitRun s [(first_name (inputNames s), preprocessImageData img)]
                        \<lparr> c_frameId = Some fid, c_timestamp = Some ts,
                          c_startTime = now eng (ticks w),
                          c_preprocessTime = toFixed2 (double (now eng (ticks w + 2) - now eng (ticks w + 1))),
                          c_inferenceStart = now eng (ticks w + 3) \<rparr>],
                   ticks := ticks w + 4\<rparr>,
                 [LogFrameStarted (Some fid)])"
  using assms by (simp add: step_def onmessage_def processFrame_def PROCESS_FRAME_def Let_def)

lemma step_frame_no_image:
  assumes "session w = Some s" and "mtype m = ''PROCESS_FRAME''"
    and "mdata m = Some d" and "imageData d = None"
  shows "step eng w (Message m) =
           Some (w\<lparr>ticks := ticks w + 3\<rparr>,
                 [LogFrameStarted (frameId d),
                  ErrorFrame (frameId d) (toFixed2 (double (now eng (ticks w + 2) - now eng (ticks w))))
                    (TypeError eng (DestructureUndefined ''data'' ''imageData'')),
                  PostMessage
                    (ERROR (''Processing failed: ''
                              @ message (TypeError eng (DestructureUndefined ''data'' ''imageData'')))
                       (frameId d))])"
  using assms
  by (simp add: step_def onmessage_def processFrame_def processFrame_catch_def Let_def)

lemma step_load_failure:
  assumes "k < length (pending w)" and "load_failure (pending w ! k) r = Some e"
  shows "step eng w (Settle k r) =
           Some (w\<lparr>pending := remove_nth k (pending w)\<rparr>,
                 [PostMessage (ERROR (''Failed to load model: '' @ message e) None)])"
  using assms(2)
  by (rule load_failure.elims) (use assms(1) in \<open>simp_all add: step_def resume_def initModel_catch_def\<close>)

lemma step_run_ok:
  assumes "k < length (pending w)" and "pending w ! k = AwaitRun s feeds ctx"
    and "session w = Some s'" and "results (first_name (outputNames s')) = Some t"
    and "ttype t \<noteq> ''int64''" and "ttype t \<noteq> ''uint64''"
  shows "step eng w (Settle k (RunSettled (Inr results))) =
           Some (w\<lparr>pending := remove_nth k (pending w), ticks := ticks w + 2\<rparr>,
                 [LogFrameComplete (c_frameId ctx) (toFixed2 (double (now eng (ticks w + 1) - c_startTime ctx)))
                    (c_preprocessTime ctx) (toFixed2 (double (now eng (ticks w) - c_inferenceStart ctx))),
                  PostMessage
                    (FRAME_PROCESSED (c_frameId ctx) (c_timestamp ctx)
                       \<lparr> odata = map fround (tdata t), odims = dims t \<rparr>
                       (JString (toFixed2 (double (now eng (ticks w + 1) - c_startTime ctx)))))])"
  using assms
  by (simp add: step_def resume_def processFrame_resume_def Float32Array_from_def Let_def)

lemma step_run_bigint:
  assumes "k < length (pending w)" and "pending w ! k = AwaitRun s feeds ctx"
    and "session w = Some s'" and "results (first_name (outputNames s')) = Some t"
    and "ttype t = ''int64'' \<or> ttype t = ''uint64''"
  shows "step eng w (Settle k (RunSettled (Inr results))) =
           Some (w\<lparr>pending := remove_nth k (pending w), ticks := ticks w + 3\<rparr>,
                 [LogFrameComplete (c_frameId ctx) (toFixed2 (double (now eng (ticks w + 1) - c_startTime ctx)))
                    (c_preprocessTime ctx) (toFixed2 (double (now eng (ticks w) - c_inferenceStart ctx))),
                  ErrorFrame (c_frameId ctx) (toFixed2 (double (now eng (ticks w + 2) - c_startTime ctx)))
                    (TypeError eng BigIntContent),
                  PostMessage
                    (ERROR (''Processing failed: '' @ message (TypeError eng BigIntContent))
                       (c_frameId ctx))])"
  using assms
  by (simp add: step_def resume_def processFrame_resume_def processFrame_catch_def
      Float32Array_from_def Let_def)

lemma step_run_missing_output:
  assumes "k < length (pending w)" and "pending w ! k = AwaitRun s feeds ctx"
    and "session w = Some s'" and "results (first_name (outputNames s')) = None"
  shows "step eng w (Settle k (RunSettled (Inr results))) =
           Some (w\<lparr>pending := remove_nth k (pending w), ticks := ticks w + 3\<rparr>,
                 [LogFrameComplete (c_frameId ctx) (toFixed2 (double (now eng (ticks w + 1) - c_startTime ctx)))
                    (c_preprocessTime ctx) (toFixed2 (double (now eng (ticks w) - c_inferenceStart ctx))),
                  ErrorFrame (c_frameId ctx) (toFixed2 (double (now eng (ticks w + 2) - c_startTime ctx)))
                    (TypeError eng (ReadOfUndefined ''data'')),
                  PostMessage
                    (ERROR (''Processing failed: '' @ message (TypeError eng (ReadOfUndefined ''data'')))
                       (c_frameId ctx))])"
  using assms
  by (simp add: step_def resume_def processFrame_resume_def processFrame_catch_def Let_def)

lemma step_run_rejected:
  assumes "k < length (pending w)" and "pending w ! k = AwaitRun s feeds ctx"
  shows "step eng w (Settle k (RunSettled (Inl e))) =
           Some (w\<lparr>pending := remove_nth k (pending w), ticks := ticks w + 1\<rparr>,
                 [ErrorFrame (c_frameId ctx) (toFixed2 (double (now eng (ticks w) - c_startTime ctx))) e,
                  PostMessage (ERROR (''Processing failed: '' @ message e) (c_frameId ctx))])"
  using assms
  by (simp add: step_def resume_def processFrame_resume_def processFrame_catch_def Let_def)

lemma exec_append:
  "exec eng w (xs @ ys) =
     (case exec eng w xs of
        None \<Rightarrow> None
      | Some (w', evs) \<Rightarrow>
          (case exec eng w' ys of None \<Rightarrow> None | Some (w'', evs') \<Rightarrow> Some (w'', evs @ evs')))"
  by (induction xs arbitrary: w) (auto split: option.splits)

lemma remove_nth_append_last [simp]: "remove_nth (length xs) (xs @ [x]) = xs"
  by (simp add: remove_nth_def)

lemma exec_load_ok:
  "exec eng w (load_ok (length (pending w)) path resp buf s) =
     Some (w\<lparr>session := Some s\<rparr>,
           [LogModelLoaded (provider_label s),
            PostMessage (MODEL_LOADED (inputNames s) (outputNames s))])"
  by (simp add: load_ok_def step_def onmessage_def INIT_def initModel_def resume_def)

text \<open>
  The worker \<open>worker_busy\<close> is what a load and a frame lead to from the start. Were
  the session replaced while that frame is in flight, the results of the old session
  would be searched under the output name of the new one.
\<close>

lemma worker_busy_reachable:
  "exec engine0 init_worker (load_ok 0 ''a.onnx'' 0 [1] session_a @ [Message (PROCESS_FRAME image0 7 100)]) =
     Some (worker_busy,
           [LogModelLoaded ''wasm'', PostMessage (MODEL_LOADED [''images'', ''sizes''] [''output0'', ''output1'']),
            LogFrameStarted (Some 7)])"
  by (simp add: load_ok_def INIT_def PROCESS_FRAME_def handler_defs format_defs init_worker_def
      worker_busy_def session_a_def ctx0_def engine0_def preprocess_image0 Let_def)

lemma stale_output_name:
  "step engine0 \<lparr> session = Some session_b,
                 pending = [AwaitRun session_a [(''images'', tensor0)] ctx0], ticks = 4 \<rparr>
     (Settle 0 (RunSettled (Inr [''output0'' \<mapsto> detections0]))) =
   Some (\<lparr> session = Some session_b, pending = [], ticks = 7 \<rparr>,
         [LogFrameComplete (Some 7) ''6.25'' ''1.25'' ''1.25'',
          ErrorFrame (Some 7) ''7.50'' (TypeError engine0 (ReadOfUndefined ''data'')),
          PostMessage
            (ERROR (''Processing failed: '' @ message (TypeError engine0 (ReadOfUndefined ''data'')))
               (Some 7))])"
  by (simp add: step_def resume_def remove_nth_def processFrame_resume_def processFrame_catch_def
      first_name_def format_defs session_b_def ctx0_def engine0_def detections0_def Let_def)

section \<open>The guard on the session\<close>

text \<open>
  C2. A \<^verbatim>\<open>PROCESS_FRAME\<close> message that arrives while no session is loaded is answered
  with the \<^verbatim>\<open>ERROR\<close> message "Model not initialized" and nothing else happens: no
  exception, no handler left suspended on the inference engine, no reading of the
  clock, and the worker, with its \<^verbatim>\<open>session\<close> variable, is what it was. This holds
  whatever the message carries, so the frame is not even looked at.
\<close>

theorem C2_no_session_error:
  assumes "session w = None" and "mtype m = ''PROCESS_FRAME''"
  shows "step eng w (Message m) = Some (w, [PostMessage (ERROR ''Model not initialized'' None)])"
  using assms by (simp add: step_def onmessage_def processFrame_def)

text \<open>
  C2 at the freshly started worker and frame 7.
\<close>

theorem C2_no_session_error_witness:
  "session init_worker = None \<and> mtype (PROCESS_FRAME image0 7 100) = ''PROCESS_FRAME''
   \<and> step engine0 init_worker (Message (PROCESS_FRAME image0 7 100)) =
       Some (init_worker, [PostMessage (ERROR ''Model not initialized'' None)])"
  using C2_no_session_error[of init_worker "PROCESS_FRAME image0 7 100" engine0]
  by (simp add: init_worker_def PROCESS_FRAME_def)

text \<open>
  C3. Every response to a \<^verbatim>\<open>PROCESS_FRAME\<close> request should carry the request's
  \<^verbatim>\<open>frameId\<close>. The guard of lines 73-79 does not: frame 7, sent to the freshly
  started worker, is answered with an \<^verbatim>\<open>ERROR\<close> that has no \<^verbatim>\<open>frameId\<close>, while the
  \<^verbatim>\<open>catch\<close> of the same function (line 135) does attach it, as
  \<open>step_frame_no_image\<close> and \<open>step_run_rejected\<close> show.
\<close>

theorem C3_not_initialized_drops_frameId:
  "mdata (PROCESS_FRAME image0 7 100) =
     Some \<lparr> modelPath = None, imageData = Some image0, frameId = Some 7, timestamp = Some 100 \<rparr>
   \<and> step engine0 init_worker (Message (PROCESS_FRAME image0 7 100)) =
       Some (init_worker, [PostMessage (ERROR ''Model not initialized'' None)])"
  by (simp add: step_def onmessage_def processFrame_def init_worker_def PROCESS_FRAME_def)

section \<open>Loading and reloading\<close>

text \<open>
  C4 as stated, for every failed load, does not hold: after a load that succeeded, a
  second load with invalid model bytes fails, and the frame sent next is not answered
  with "Model not initialized" but goes to inference on the first session.
\<close>

theorem C4_counterexample:
  "exec engine0 init_worker
     (load_ok 0 ''a.onnx'' 0 [1] session_a
      @ [Message (INIT ''bad.onnx''),
         Settle 0 (FetchSettled (Inr 1)),
         Settle 0 (ArrayBufferSettled (Inr [0])),
         Settle 0 (CreateSettled (Inl (JsError ''invalid model''))),
         Message (PROCESS_FRAME image0 7 100)]) =
     Some (worker_busy,
           [LogModelLoaded ''wasm'', PostMessage (MODEL_LOADED [''images'', ''sizes''] [''output0'', ''output1'']),
            PostMessage (ERROR ''Failed to load model: invalid model'' None),
            LogFrameStarted (Some 7)])"
  by (simp add: load_ok_def INIT_def PROCESS_FRAME_def handler_defs format_defs init_worker_def
      worker_busy_def session_a_def ctx0_def engine0_def preprocess_image0 Let_def)

text \<open>
  C4, amended. When a load fails while no session is loaded, whichever of its three
  awaits rejects, the worker posts \<^verbatim>\<open>ERROR\<close> with "Failed to load model: " and the
  cause, its \<^verbatim>\<open>session\<close> variable stays unset (the code keeps no other mark of a failed
  load), a later \<^verbatim>\<open>INIT\<close> is accepted, starts a new fetch and can succeed, and every
  \<^verbatim>\<open>PROCESS_FRAME\<close> is answered at once with "Model not initialized", no inference
  being started.
\<close>

theorem C4_failed_first_load:
  assumes "session w = None" and "k < length (pending w)"
    and "load_failure (pending w ! k) r = Some e"
  shows "step eng w (Settle k r) =
           Some (w\<lparr>pending := remove_nth k (pending w)\<rparr>,
                 [PostMessage (ERROR (''Failed to load model: '' @ message e) None)])
       \<and> session (w\<lparr>pending := remove_nth k (pending w)\<rparr>) = None
       \<and> (\<forall>path.
             step eng (w\<lparr>pending := remove_nth k (pending w)\<rparr>) (Message (INIT path)) =
               Some (w\<lparr>pending := remove_nth k (pending w) @ [AwaitFetch (Some path)]\<rparr>, []))
       \<and> (\<forall>path resp buf s.
             exec eng (w\<lparr>pending := remove_nth k (pending w)\<rparr>)
                  (load_ok (length (remove_nth k (pending w))) path resp buf s) =
               Some (w\<lparr>session := Some s, pending := remove_nth k (pending w)\<rparr>,
                     [LogModelLoaded (provider_label s),
                      PostMessage (MODEL_LOADED (inputNames s) (outputNames s))]))
       \<and> (\<forall>m. mtype m = ''PROCESS_FRAME'' \<longrightarrow>
             step eng (w\<lparr>pending := remove_nth k (pending w)\<rparr>) (Message m) =
               Some (w\<lparr>pending := remove_nth k (pending w)\<rparr>,
                     [PostMessage (ERROR ''Model not initialized'' None)]))"
proof -
  let ?w' = "w\<lparr>pending := remove_nth k (pending w)\<rparr>"
  have s': "session ?w' = None" using assms(1) by simp
  have "step eng ?w' (Message m) = Some (?w', [PostMessage (ERROR ''Model not initialized'' None)])"
    if "mtype m = ''PROCESS_FRAME''" for m
    using s' that by (simp add: step_def onmessage_def processFrame_def)
  moreover have "step eng ?w' (Message (INIT path)) =
      Some (w\<lparr>pending := remove_nth k (pending w) @ [AwaitFetch (Some path)]\<rparr>, [])" for path
    using step_init[of eng ?w' path] by simp
  moreover have "exec eng ?w' (load_ok (length (remove_nth k (pending w))) path resp buf s) =
      Some (w\<lparr>session := Some s, pending := remove_nth k (pending w)\<rparr>,
            [LogModelLoaded (provider_label s),
             PostMessage (MODEL_LOADED (inputNames s) (outputNames s))])" for path resp buf s
    using exec_load_ok[of eng ?w' path resp buf s] by simp
  ultimately show ?thesis
    using step_load_failure[OF assms(2,3)] s' by blast
qed

text \<open>
  C4, amended, at a first load whose model bytes are refused.
\<close>

theorem C4_failed_first_load_witness:
  "session worker_loading = None
   \<and> 0 < length (pending worker_loading)
   \<and> load_failure (pending worker_loading ! 0) (CreateSettled (Inl (JsError ''invalid model''))) =
       Some (JsError ''invalid model'')
   \<and> step engine0 worker_loading (Settle 0 (CreateSettled (Inl (JsError ''invalid model'')))) =
       Some (init_worker, [PostMessage (ERROR ''Failed to load model: invalid model'' None)])
   \<and> session init_worker = None
   \<and> step engine0 init_worker (Message (INIT ''a.onnx'')) =
       Some (\<lparr> session = None, pending = [AwaitFetch (Some ''a.onnx'')], ticks = 0 \<rparr>, [])
   \<and> exec engine0 init_worker (load_ok 0 ''a.onnx'' 0 [1] session_a) =
       Some (worker_ready,
             [LogModelLoaded ''wasm'', PostMessage (MODEL_LOADED [''images'', ''sizes''] [''output0'', ''output1''])])
   \<and> mtype (PROCESS_FRAME image0 7 100) = ''PROCESS_FRAME''
   \<and> step engine0 init_worker (Message (PROCESS_FRAME image0 7 100)) =
       Some (init_worker, [PostMessage (ERROR ''Model not initialized'' None)])"
proof -
  have h1: "session worker_loading = None"
    by (simp add: worker_loading_def)
  have h2: "0 < length (pending worker_loading)"
    by (simp add: worker_loading_def)
  have h3: "load_failure (pending worker_loading ! 0) (CreateSettled (Inl (JsError ''invalid model''))) =
       Some (JsError ''invalid model'')"
    by (simp add: worker_loading_def)
  have h4: "mtype (PROCESS_FRAME image0 7 100) = ''PROCESS_FRAME''"
    by (simp add: PROCESS_FRAME_def)
  note c = C4_failed_first_load[OF h1 h2 h3, of engine0]
  have w': "worker_loading\<lparr>pending := remove_nth 0 (pending worker_loading)\<rparr> = init_worker"
    by (simp add: worker_loading_def init_worker_def remove_nth_def)
  have a: "step engine0 worker_loading (Settle 0 (CreateSettled (Inl (JsError ''invalid model'')))) =
       Some (init_worker, [PostMessage (ERROR ''Failed to load model: invalid model'' None)])"
    using c[THEN conjunct1] by (simp add: w')
  have b: "session init_worker = None"
    using c[THEN conjunct2, THEN conjunct1] by (simp add: w')
  have d: "step engine0 init_worker (Message (INIT ''a.onnx'')) =
       Some (\<lparr> session = None, pending = [AwaitFetch (Some ''a.onnx'')], ticks = 0 \<rparr>, [])"
    using c[THEN conjunct2, THEN conjunct2, THEN conjunct1, rule_format, of "''a.onnx''"]
    by (simp add: w') (simp add: worker_loading_def init_worker_def remove_nth_def)
  have e: "step engine0 init_worker (Message (PROCESS_FRAME image0 7 100)) =
       Some (init_worker, [PostMessage (ERROR ''Model not initialized'' None)])"
    using c[THEN conjunct2, THEN conjunct2, THEN conjunct2, THEN conjunct2, rule_format, OF h4]
    by (simp add: w')
  have f: "exec engine0 init_worker (load_ok 0 ''a.onnx'' 0 [1] session_a) =
       Some (worker_ready,
             [LogModelLoaded ''wasm'', PostMessage (MODEL_LOADED [''images'', ''sizes''] [''output0'', ''output1''])])"
    using c[THEN conjunct2, THEN conjunct2, THEN conjunct2, THEN conjunct1, rule_format,
            of "''a.onnx''" 0 "[1]" session_a]
    by (simp add: w') (simp add: worker_loading_def init_worker_def worker_ready_def remove_nth_def
        session_a_def provider_label_def)
  from h1 h2 h3 h4 a b d e f show ?thesis by blast
qed

text \<open>
  C10. When a load fails while a session \<open>s\<close> is loaded, the worker posts the
  \<^verbatim>\<open>ERROR\<close> and keeps \<open>s\<close>: the frame sent next is not answered with "Model not
  initialized" but is encoded and handed to \<^verbatim>\<open>run\<close> of \<open>s\<close>, under the first input
  name of \<open>s\<close>.
\<close>

theorem C10_failed_load_keeps_session:
  assumes "session w = Some s" and "k < length (pending w)"
    and "load_failure (pending w ! k) r = Some e"
  shows "step eng w (Settle k r) =
           Some (w\<lparr>pending := remove_nth k (pending w)\<rparr>,
                 [PostMessage (ERROR (''Failed to load model: '' @ message e) None)])
       \<and> session (w\<lparr>pending := remove_nth k (pending w)\<rparr>) = Some s
       \<and> (\<forall>img fid ts. \<exists>ctx.
             step eng (w\<lparr>pending := remove_nth k (pending w)\<rparr>) (Message (PROCESS_FRAME img fid ts)) =
               Some (w\<lparr>pending := remove_nth k (pending w) @
                         [AwaitRun s [(first_name (inputNames s), preprocessImageData img)] ctx],
                       ticks := ticks w + 4\<rparr>,
                     [LogFrameStarted (Some fid)]))"
proof -
  let ?w' = "w\<lparr>pending := remove_nth k (pending w)\<rparr>"
  have s': "session ?w' = Some s" using assms(1) by simp
  have "\<exists>ctx. step eng ?w' (Message (PROCESS_FRAME img fid ts)) =
               Some (w\<lparr>pending := remove_nth k (pending w) @
                         [AwaitRun s [(first_name (inputNames s), preprocessImageData img)] ctx],
                       ticks := ticks w + 4\<rparr>,
                     [LogFrameStarted (Some fid)])" for img fid ts
    using step_frame_start[OF s', of eng img fid ts] by auto
  with step_load_failure[OF assms(2,3)] s' show ?thesis by blast
qed

text \<open>
  C10 at a reload whose model bytes are refused, followed by frame 7.
\<close>

theorem C10_failed_load_keeps_session_witness:
  "session worker_reloading = Some session_a
   \<and> 0 < length (pending worker_reloading)
   \<and> load_failure (pending worker_reloading ! 0) (CreateSettled (Inl (JsError ''invalid model''))) =
       Some (JsError ''invalid model'')
   \<and> step engine0 worker_reloading (Settle 0 (CreateSettled (Inl (JsError ''invalid model'')))) =
       Some (worker_ready, [PostMessage (ERROR ''Failed to load model: invalid model'' None)])
   \<and> (\<exists>ctx. step engine0 worker_ready (Message (PROCESS_FRAME image0 7 100)) =
         Some (\<lparr> session = Some session_a,
                 pending = [AwaitRun session_a [(''images'', tensor0)] ctx],
                 ticks = 4 \<rparr>,
               [LogFrameStarted (Some 7)]))"
proof -
  have h1: "session worker_reloading = Some session_a"
    by (simp add: worker_reloading_def)
  have h2: "0 < length (pending worker_reloading)"
    by (simp add: worker_reloading_def)
  have h3: "load_failure (pending worker_reloading ! 0) (CreateSettled (Inl (JsError ''invalid model''))) =
       Some (JsError ''invalid model'')"
    by (simp add: worker_reloading_def)
  note c = C10_failed_load_keeps_session[OF h1 h2 h3, of engine0]
  have w': "worker_reloading\<lparr>pending := remove_nth 0 (pending worker_reloading)\<rparr> = worker_ready"
    by (simp add: worker_reloading_def worker_ready_def remove_nth_def)
  have a: "step engine0 worker_reloading (Settle 0 (CreateSettled (Inl (JsError ''invalid model'')))) =
       Some (worker_ready, [PostMessage (ERROR ''Failed to load model: invalid model'' None)])"
    using c[THEN conjunct1] by (simp add: w')
  have b: "\<exists>ctx. step engine0 worker_ready (Message (PROCESS_FRAME image0 7 100)) =
         Some (\<lparr> session = Some session_a,
                 pending = [AwaitRun session_a [(''images'', tensor0)] ctx],
                 ticks = 4 \<rparr>,
               [LogFrameStarted (Some 7)])"
    using c[THEN conjunct2, THEN conjunct2, rule_format, of image0 7 100]
    by (simp add: w' preprocess_image0)
      (simp add: worker_reloading_def worker_ready_def remove_nth_def session_a_def first_name_def)
  from h1 h2 h3 a b show ?thesis by blast
qed

text \<open>
  C5. After two loads that succeed one after the other, from any state of the worker
  and with no other input in between, the session is the second one, \<open>sb\<close>. With
  \<open>n_in\<close> the first input name and \<open>n_out\<close> the first output name that \<open>sb\<close>
  declares: the frame sent next is handed to \<^verbatim>\<open>run\<close> of \<open>sb\<close> under the key \<open>n_in\<close>;
  when that call resolves, the tensor posted is the binary32 copy of the one the
  results hold under \<open>n_out\<close>; and when the results hold nothing under \<open>n_out\<close>, the
  frame fails, whatever they hold under other names. The first session \<open>sa\<close> occurs
  nowhere but in its own \<^verbatim>\<open>MODEL_LOADED\<close> message.
\<close>

theorem C5_second_load_replaces:
  assumes "inputNames sb = n_in # ins" and "outputNames sb = n_out # outs"
  shows "\<exists>ctx.
     exec eng w (load_ok (length (pending w)) p1 r1 b1 sa @ load_ok (length (pending w)) p2 r2 b2 sb
                 @ [Message (PROCESS_FRAME img fid ts)]) =
       Some (w\<lparr>session := Some sb,
                pending := pending w @ [AwaitRun sb [(n_in, preprocessImageData img)] ctx],
                ticks := ticks w + 4\<rparr>,
             [LogModelLoaded (provider_label sa),
              PostMessage (MODEL_LOADED (inputNames sa) (outputNames sa)),
              LogModelLoaded (provider_label sb),
              PostMessage (MODEL_LOADED (inputNames sb) (outputNames sb)),
              LogFrameStarted (Some fid)])
   \<and> (\<forall>results t. results n_out = Some t \<and> ttype t \<noteq> ''int64'' \<and> ttype t \<noteq> ''uint64'' \<longrightarrow>
        (\<exists>logged p.
           step eng (w\<lparr>session := Some sb,
                        pending := pending w @ [AwaitRun sb [(n_in, preprocessImageData img)] ctx],
                        ticks := ticks w + 4\<rparr>)
                (Settle (length (pending w)) (RunSettled (Inr results))) =
             Some (w\<lparr>session := Some sb, pending := pending w, ticks := ticks w + 6\<rparr>,
                   [logged,
                    PostMessage (FRAME_PROCESSED (Some fid) (Some ts)
                                   \<lparr> odata = map fround (tdata t), odims = dims t \<rparr> p)])))
   \<and> (\<forall>results. results n_out = None \<longrightarrow>
        (\<exists>logged failed cause.
           step eng (w\<lparr>session := Some sb,
                        pending := pending w @ [AwaitRun sb [(n_in, preprocessImageData img)] ctx],
                        ticks := ticks w + 4\<rparr>)
                (Settle (length (pending w)) (RunSettled (Inr results))) =
             Some (w\<lparr>session := Some sb, pending := pending w, ticks := ticks w + 7\<rparr>,
                   [logged, failed, PostMessage (ERROR cause (Some fid))])))"
proof -
  define ctx where "ctx = \<lparr> c_frameId = Some fid, c_timestamp = Some ts,
                          c_startTime = now eng (ticks w),
                          c_preprocessTime = toFixed2 (double (now eng (ticks w + 2) - now eng (ticks w + 1))),
                          c_inferenceStart = now eng (ticks w + 3) \<rparr>"
  let ?w2 = "w\<lparr>session := Some sb\<rparr>"
  let ?w3 = "w\<lparr>session := Some sb,
                pending := pending w @ [AwaitRun sb [(n_in, preprocessImageData img)] ctx],
                ticks := ticks w + 4\<rparr>"
  have n_in: "first_name (inputNames sb) = n_in" using assms(1) by (simp add: first_name_def)
  have n_out: "first_name (outputNames sb) = n_out" using assms(2) by (simp add: first_name_def)
  have l1: "exec eng w (load_ok (length (pending w)) p1 r1 b1 sa) =
              Some (w\<lparr>session := Some sa\<rparr>,
                    [LogModelLoaded (provider_label sa),
                     PostMessage (MODEL_LOADED (inputNames sa) (outputNames sa))])"
    by (rule exec_load_ok)
  have l2: "exec eng (w\<lparr>session := Some sa\<rparr>) (load_ok (length (pending w)) p2 r2 b2 sb) =
              Some (?w2,
                    [LogModelLoaded (provider_label sb),
                     PostMessage (MODEL_LOADED (inputNames sb) (outputNames sb))])"
    using exec_load_ok[of eng "w\<lparr>session := Some sa\<rparr>" p2 r2 b2 sb] by simp
  have l3: "step eng ?w2 (Message (PROCESS_FRAME img fid ts)) = Some (?w3, [LogFrameStarted (Some fid)])"
    using step_frame_start[of ?w2 sb eng img fid ts] by (simp add: ctx_def n_in)
  have run: "exec eng w (load_ok (length (pending w)) p1 r1 b1 sa @ load_ok (length (pending w)) p2 r2 b2 sb
                 @ [Message (PROCESS_FRAME img fid ts)]) =
       Some (?w3,
             [LogModelLoaded (provider_label sa),
              PostMessage (MODEL_LOADED (inputNames sa) (outputNames sa)),
              LogModelLoaded (provider_label sb),
              PostMessage (MODEL_LOADED (inputNames sb) (outputNames sb)),
              LogFrameStarted (Some fid)])"
    by (simp add: exec_append l1 l2 l3)
  have fin: "\<exists>logged p.
           step eng ?w3 (Settle (length (pending w)) (RunSettled (Inr results))) =
             Some (w\<lparr>session := Some sb, pending := pending w, ticks := ticks w + 6\<rparr>,
                   [logged,
                    PostMessage (FRAME_PROCESSED (Some fid) (Some ts)
                                   \<lparr> odata = map fround (tdata t), odims = dims t \<rparr> p)])"
    if "results n_out = Some t \<and> ttype t \<noteq> ''int64'' \<and> ttype t \<noteq> ''uint64''" for results t
    using step_run_ok[of "length (pending w)" ?w3 sb _ ctx sb results t eng] that
    by (simp add: ctx_def n_out)
  have miss: "\<exists>logged failed cause.
           step eng ?w3 (Settle (length (pending w)) (RunSettled (Inr results))) =
             Some (w\<lparr>session := Some sb, pending := pending w, ticks := ticks w + 7\<rparr>,
                   [logged, failed, PostMessage (ERROR cause (Some fid))])"
    if "results n_out = None" for results
    using step_run_missing_output[of "length (pending w)" ?w3 sb _ ctx sb results eng] that
    by (simp add: ctx_def n_out)
  from run fin miss show ?thesis by blast
qed

text \<open>
  C5 at the freshly started worker, \<open>session_a\<close> then \<open>session_b\<close>, which declare
  two names each, and frame 7, whose run resolves with tensors under three names, a
  \<^verbatim>\<open>float64\<close> one under the first output name of \<open>session_b\<close>.
\<close>

theorem C5_second_load_replaces_witness:
  "inputNames session_b = ''x'' # [''scale'']
   \<and> outputNames session_b = ''y'' # [''masks'']
   \<and> (\<exists>ctx.
        exec engine0 init_worker
          (load_ok 0 ''a.onnx'' 0 [1] session_a @ load_ok 0 ''b.onnx'' 1 [2] session_b
           @ [Message (PROCESS_FRAME image0 7 100)]) =
          Some (\<lparr> session = Some session_b,
                  pending = [AwaitRun session_b [(''x'', tensor0)] ctx],
                  ticks = 4 \<rparr>,
                [LogModelLoaded ''wasm'',
                 PostMessage (MODEL_LOADED [''images'', ''sizes''] [''output0'', ''output1'']),
                 LogModelLoaded ''unknown'',
                 PostMessage (MODEL_LOADED [''x'', ''scale''] [''y'', ''masks'']),
                 LogFrameStarted (Some 7)])
      \<and> results_b ''y'' = Some detections64
      \<and> ttype detections64 \<noteq> ''int64'' \<and> ttype detections64 \<noteq> ''uint64''
      \<and> (\<exists>logged p.
            step engine0 \<lparr> session = Some session_b,
                          pending = [AwaitRun session_b [(''x'', tensor0)] ctx],
                          ticks = 4 \<rparr>
                 (Settle 0 (RunSettled (Inr results_b))) =
              Some (\<lparr> session = Some session_b, pending = [], ticks = 6 \<rparr>,
                    [logged,
                     PostMessage (FRAME_PROCESSED (Some 7) (Some 100)
                                    \<lparr> odata = [Num (13421773 / 33554432)], odims = [1, 1] \<rparr> p)])))"
proof -
  have h1: "inputNames session_b = ''x'' # [''scale'']"
    by (simp add: session_b_def)
  have h2: "outputNames session_b = ''y'' # [''masks'']"
    by (simp add: session_b_def)
  have h3: "results_b ''y'' = Some detections64 \<and> ttype detections64 \<noteq> ''int64''
      \<and> ttype detections64 \<noteq> ''uint64''"
    by (simp add: results_b_def detections64_def)
  from C5_second_load_replaces[OF h1 h2, of engine0 init_worker "''a.onnx''" 0 "[1]" session_a
                                  "''b.onnx''" 1 "[2]" image0 7 100]
  obtain ctx where
    a: "exec engine0 init_worker
       (load_ok (length (pending init_worker)) ''a.onnx'' 0 [1] session_a
        @ load_ok (length (pending init_worker)) ''b.onnx'' 1 [2] session_b
        @ [Message (PROCESS_FRAME image0 7 100)]) =
       Some (init_worker\<lparr>session := Some session_b,
                pending := pending init_worker @
                  [AwaitRun session_b [(''x'', preprocessImageData image0)] ctx],
                ticks := ticks init_worker + 4\<rparr>,
             [LogModelLoaded (provider_label session_a),
              PostMessage (MODEL_LOADED (inputNames session_a) (outputNames session_a)),
              LogModelLoaded (provider_label session_b),
              PostMessage (MODEL_LOADED (inputNames session_b) (outputNames session_b)),
              LogFrameStarted (Some 7)])"
    and b: "\<forall>results t. results ''y'' = Some t \<and> ttype t \<noteq> ''int64'' \<and> ttype t \<noteq> ''uint64'' \<longrightarrow>
        (\<exists>logged p.
           step engine0 (init_worker\<lparr>session := Some session_b,
                        pending := pending init_worker @
                          [AwaitRun session_b [(''x'', preprocessImageData image0)] ctx],
                        ticks := ticks init_worker + 4\<rparr>)
                (Settle (length (pending init_worker)) (RunSettled (Inr results))) =
             Some (init_worker\<lparr>session := Some session_b, pending := pending init_worker,
                     ticks := ticks init_worker + 6\<rparr>,
                   [logged,
                    PostMessage (FRAME_PROCESSED (Some 7) (Some 100)
                                   \<lparr> odata = map fround (tdata t), odims = dims t \<rparr> p)]))"
    by blast
  have a': "exec engine0 init_worker
       (load_ok 0 ''a.onnx'' 0 [1] session_a @ load_ok 0 ''b.onnx'' 1 [2] session_b
        @ [Message (PROCESS_FRAME image0 7 100)]) =
       Some (\<lparr> session = Some session_b,
               pending = [AwaitRun session_b [(''x'', tensor0)] ctx],
               ticks = 4 \<rparr>,
             [LogModelLoaded ''wasm'',
              PostMessage (MODEL_LOADED [''images'', ''sizes''] [''output0'', ''output1'']),
              LogModelLoaded ''unknown'',
              PostMessage (MODEL_LOADED [''x'', ''scale''] [''y'', ''masks'']),
              LogFrameStarted (Some 7)])"
    using a by (simp add: init_worker_def preprocess_image0)
      (simp add: session_a_def session_b_def provider_label_def)
  have b': "\<exists>logged p.
         step engine0 \<lparr> session = Some session_b,
                       pending = [AwaitRun session_b [(''x'', tensor0)] ctx],
                       ticks = 4 \<rparr>
              (Settle 0 (RunSettled (Inr results_b))) =
           Some (\<lparr> session = Some session_b, pending = [], ticks = 6 \<rparr>,
                 [logged,
                  PostMessage (FRAME_PROCESSED (Some 7) (Some 100)
                                 \<lparr> odata = [Num (13421773 / 33554432)], odims = [1, 1] \<rparr> p)])"
    using b[rule_format, of results_b detections64, OF h3]
    by (simp add: init_worker_def preprocess_image0)
      (simp add: detections64_def fround_double_fifth)
  from h1 h2 h3 a' b' show ?thesis by blast
qed

text \<open>
  C9 as stated does not hold: with frame 7 in flight on \<open>session_a\<close>, an \<^verbatim>\<open>INIT\<close> is
  neither queued nor rejected. Its load runs, \<^verbatim>\<open>MODEL_LOADED\<close> is posted and the
  session is \<open>session_b\<close> while the call on \<open>session_a\<close> is still outstanding.
\<close>

theorem C9_counterexample:
  "exec engine0 init_worker
     (load_ok 0 ''a.onnx'' 0 [1] session_a @ [Message (PROCESS_FRAME image0 7 100)]) =
     Some (worker_busy,
           [LogModelLoaded ''wasm'', PostMessage (MODEL_LOADED [''images'', ''sizes''] [''output0'', ''output1'']),
            LogFrameStarted (Some 7)])
   \<and> pending worker_busy = [AwaitRun session_a [(''images'', tensor0)] ctx0]
   \<and> exec engine0 worker_busy (load_ok 1 ''b.onnx'' 1 [2] session_b) =
       Some (\<lparr> session = Some session_b,
               pending = [AwaitRun session_a [(''images'', tensor0)] ctx0],
               ticks = 4 \<rparr>,
             [LogModelLoaded ''unknown'', PostMessage (MODEL_LOADED [''x'', ''scale''] [''y'', ''masks''])])"
  by (simp add: load_ok_def INIT_def PROCESS_FRAME_def handler_defs format_defs init_worker_def
      worker_busy_def session_a_def session_b_def ctx0_def engine0_def preprocess_image0 Let_def)

text \<open>
  C9, amended. In every state with an inference call outstanding, an \<^verbatim>\<open>INIT\<close> is
  handled at once: its load, when it succeeds, posts \<^verbatim>\<open>MODEL_LOADED\<close> and replaces the
  session, and the call that was outstanding still is, on the session object it was
  started on.
\<close>

theorem C9_init_during_inference:
  assumes "k < length (pending w)" and "pending w ! k = AwaitRun s feeds ctx"
  shows "exec eng w (load_ok (length (pending w)) path resp buf s') =
           Some (w\<lparr>session := Some s'\<rparr>,
                 [LogModelLoaded (provider_label s'),
                  PostMessage (MODEL_LOADED (inputNames s') (outputNames s'))])
       \<and> session (w\<lparr>session := Some s'\<rparr>) = Some s'
       \<and> pending (w\<lparr>session := Some s'\<rparr>) ! k = AwaitRun s feeds ctx"
  using assms exec_load_ok[of eng w path resp buf s'] by simp

text \<open>
  C9, amended, at \<open>worker_busy\<close>.
\<close>

theorem C9_init_during_inference_witness:
  "0 < length (pending worker_busy)
   \<and> pending worker_busy ! 0 = AwaitRun session_a [(''images'', tensor0)] ctx0
   \<and> exec engine0 worker_busy (load_ok 1 ''b.onnx'' 1 [2] session_b) =
       Some (worker_busy\<lparr>session := Some session_b\<rparr>,
             [LogModelLoaded ''unknown'', PostMessage (MODEL_LOADED [''x'', ''scale''] [''y'', ''masks''])])
   \<and> session (worker_busy\<lparr>session := Some session_b\<rparr>) = Some session_b
   \<and> pending (worker_busy\<lparr>session := Some session_b\<rparr>) ! 0 =
       AwaitRun session_a [(''images'', tensor0)] ctx0"
proof -
  have h1: "0 < length (pending worker_busy)"
    by (simp add: worker_busy_def)
  have h2: "pending worker_busy ! 0 = AwaitRun session_a [(''images'', tensor0)] ctx0"
    by (simp add: worker_busy_def)
  have n: "length (pending worker_busy) = 1"
    by (simp add: worker_busy_def)
  note c = C9_init_during_inference[OF h1 h2, of engine0 "''b.onnx''" 1 "[2]" session_b]
  have a: "exec engine0 worker_busy (load_ok 1 ''b.onnx'' 1 [2] session_b) =
       Some (worker_busy\<lparr>session := Some session_b\<rparr>,
             [LogModelLoaded ''unknown'', PostMessage (MODEL_LOADED [''x'', ''scale''] [''y'', ''masks''])])"
    using c[THEN conjunct1] by (simp add: n) (simp add: session_b_def provider_label_def)
  from h1 h2 a c[THEN conjunct2] show ?thesis by blast
qed

section \<open>Frames\<close>

text \<open>
  C6 as stated does not hold: frame 7, processed successfully, is reported with
  \<^verbatim>\<open>processingTime\<close> the string "6.25", not a number.
\<close>

theorem C6_counterexample:
  "exec engine0 init_worker
     (load_ok 0 ''a.onnx'' 0 [1] session_a
      @ [Message (PROCESS_FRAME image0 7 100),
         Settle 0 (RunSettled (Inr [''output0'' \<mapsto> detections0]))]) =
     Some (\<lparr> session = Some session_a, pending = [], ticks = 6 \<rparr>,
           [LogModelLoaded ''wasm'', PostMessage (MODEL_LOADED [''images'', ''sizes''] [''output0'', ''output1'']),
            LogFrameStarted (Some 7),
            LogFrameComplete (Some 7) ''6.25'' ''1.25'' ''1.25'',
            PostMessage (FRAME_PROCESSED (Some 7) (Some 100)
                           \<lparr> odata = [Num (1 / 2)], odims = [1, 1] \<rparr> (JString ''6.25''))])
   \<and> \<not> is_number (JString ''6.25'')"
  by (simp add: load_ok_def INIT_def PROCESS_FRAME_def handler_defs format_defs init_worker_def
      session_a_def engine0_def preprocess_image0 detections0_def Let_def)

text \<open>
  C6, amended. Whenever a turn posts \<^verbatim>\<open>FRAME_PROCESSED\<close>, the turn is the resolution
  of the \<^verbatim>\<open>run\<close> call of a suspended \<^verbatim>\<open>processFrame\<close>, and \<^verbatim>\<open>processingTime\<close> is
  a string: the total elapsed time, the binary64 difference of the handler's last
  and first readings of the clock, as \<^verbatim>\<open>toFixed(2)\<close> writes it.
\<close>

theorem C6_processingTime_string:
  assumes "step eng w inp = Some (w', evs)"
    and "PostMessage (FRAME_PROCESSED fid ts out p) \<in> set evs"
  shows "\<exists>k s feeds ctx res.
           inp = Settle k (RunSettled (Inr res)) \<and> k < length (pending w)
         \<and> pending w ! k = AwaitRun s feeds ctx
         \<and> p = JString (toFixed2 (double (now eng (ticks w + 1) - c_startTime ctx)))"
proof (cases inp)
  case (Message m)
  with assms show ?thesis
    by (auto simp: step_def onmessage_def processFrame_def initModel_def processFrame_catch_def
        Let_def split: option.splits sum.splits if_splits)
next
  case (Settle k r)
  with assms(1) have k: "k < length (pending w)"
    by (simp add: step_def resume_def split: if_splits)
  show ?thesis
  proof (cases "\<exists>s feeds ctx res. pending w ! k = AwaitRun s feeds ctx \<and> r = RunSettled res")
    case True
    then obtain s feeds ctx res where t: "pending w ! k = AwaitRun s feeds ctx" and r: "r = RunSettled res"
      by blast
    with assms Settle k show ?thesis
      by (auto simp: step_def resume_def processFrame_resume_def processFrame_catch_def
          Let_def split: option.splits sum.splits)
  next
    case False
    with assms(1) Settle k have "initModel_resume w k (pending w ! k) r = Some (w', evs)"
      by (auto simp: step_def resume_def split: task.splits settlement.splits)
    then have "PostMessage (FRAME_PROCESSED fid ts out p) \<notin> set evs"
      by (rule initModel_resume.elims) (auto simp: initModel_catch_def split: sum.splits)
    with assms(2) show ?thesis by simp
  qed
qed

text \<open>
  C6, amended, at the resolution of frame 7.
\<close>

theorem C6_processingTime_string_witness:
  "step engine0 worker_busy (Settle 0 (RunSettled (Inr [''output0'' \<mapsto> detections0]))) =
     Some (\<lparr> session = Some session_a, pending = [], ticks = 6 \<rparr>,
           [LogFrameComplete (Some 7) ''6.25'' ''1.25'' ''1.25'',
            PostMessage (FRAME_PROCESSED (Some 7) (Some 100)
                           \<lparr> odata = [Num (1 / 2)], odims = [1, 1] \<rparr> (JString ''6.25''))])
   \<and> PostMessage (FRAME_PROCESSED (Some 7) (Some 100)
                    \<lparr> odata = [Num (1 / 2)], odims = [1, 1] \<rparr> (JString ''6.25''))
       \<in> set [LogFrameComplete (Some 7) ''6.25'' ''1.25'' ''1.25'',
              PostMessage (FRAME_PROCESSED (Some 7) (Some 100)
                             \<lparr> odata = [Num (1 / 2)], odims = [1, 1] \<rparr> (JString ''6.25''))]
   \<and> (\<exists>k s feeds ctx res.
         Settle 0 (RunSettled (Inr [''output0'' \<mapsto> detections0])) = Settle k (RunSettled (Inr res))
       \<and> k < length (pending worker_busy)
       \<and> pending worker_busy ! k = AwaitRun s feeds ctx
       \<and> JString ''6.25'' =
           JString (toFixed2 (double (now engine0 (ticks worker_busy + 1) - c_startTime ctx))))"
proof -
  have h1: "step engine0 worker_busy (Settle 0 (RunSettled (Inr [''output0'' \<mapsto> detections0]))) =
     Some (\<lparr> session = Some session_a, pending = [], ticks = 6 \<rparr>,
           [LogFrameComplete (Some 7) ''6.25'' ''1.25'' ''1.25'',
            PostMessage (FRAME_PROCESSED (Some 7) (Some 100)
                           \<lparr> odata = [Num (1 / 2)], odims = [1, 1] \<rparr> (JString ''6.25''))])"
    by (simp add: handler_defs format_defs worker_busy_def session_a_def ctx0_def engine0_def
        detections0_def Let_def)
  have h2: "PostMessage (FRAME_PROCESSED (Some 7) (Some 100)
                    \<lparr> odata = [Num (1 / 2)], odims = [1, 1] \<rparr> (JString ''6.25''))
       \<in> set [LogFrameComplete (Some 7) ''6.25'' ''1.25'' ''1.25'',
              PostMessage (FRAME_PROCESSED (Some 7) (Some 100)
                             \<lparr> odata = [Num (1 / 2)], odims = [1, 1] \<rparr> (JString ''6.25''))]"
    by simp
  from C6_processingTime_string[OF h1 h2] h1 h2 show ?thesis by blast
qed

text \<open>
  C7. For a picture whose width or height is not the 640 the model expects,
  \<^verbatim>\<open>preprocessImageData\<close> still returns a tensor, of declared shape
  \<open>[1, 3, width, height]\<close> with the width and height supplied, and
  \<^verbatim>\<open>processFrame\<close> hands that tensor to \<^verbatim>\<open>run\<close> without posting anything.
\<close>

theorem C7_no_dimension_check:
  assumes "width img \<noteq> MODEL_INPUT_SIZE \<or> height img \<noteq> MODEL_INPUT_SIZE"
  shows "dims (preprocessImageData img) = [1, 3, width img, height img]
       \<and> length (tdata (preprocessImageData img)) = 3 * width img * height img
       \<and> (\<forall>w s fid ts. session w = Some s \<longrightarrow>
            (\<exists>ctx. step eng w (Message (PROCESS_FRAME img fid ts)) =
               Some (w\<lparr>pending := pending w @
                         [AwaitRun s [(first_name (inputNames s), preprocessImageData img)] ctx],
                       ticks := ticks w + 4\<rparr>,
                     [LogFrameStarted (Some fid)])))"
proof -
  have "dims (preprocessImageData img) = [1, 3, width img, height img]"
    by (simp add: preprocessImageData_def Let_def)
  moreover have "length (tdata (preprocessImageData img)) = 3 * width img * height img"
    by (simp add: preprocessImageData_def Let_def)
  moreover have "\<exists>ctx. step eng w (Message (PROCESS_FRAME img fid ts)) =
               Some (w\<lparr>pending := pending w @
                         [AwaitRun s [(first_name (inputNames s), preprocessImageData img)] ctx],
                       ticks := ticks w + 4\<rparr>,
                     [LogFrameStarted (Some fid)])" if "session w = Some s" for w s fid ts
    using step_frame_start[OF that, of eng img fid ts] by auto
  ultimately show ?thesis by blast
qed

text \<open>
  C7 at the picture \<open>image0\<close>, two pixels wide and one high.
\<close>

theorem C7_no_dimension_check_witness:
  "width image0 \<noteq> MODEL_INPUT_SIZE
   \<and> dims (preprocessImageData image0) = [1, 3, 2, 1]
   \<and> length (tdata (preprocessImageData image0)) = 6
   \<and> session worker_ready = Some session_a
   \<and> (\<exists>ctx. step engine0 worker_ready (Message (PROCESS_FRAME image0 7 100)) =
         Some (\<lparr> session = Some session_a,
                 pending = [AwaitRun session_a [(''images'', tensor0)] ctx],
                 ticks = 4 \<rparr>,
               [LogFrameStarted (Some 7)]))"
proof -
  have h0: "width image0 \<noteq> MODEL_INPUT_SIZE"
    by (simp add: image0_def MODEL_INPUT_SIZE_def)
  then have h1: "width image0 \<noteq> MODEL_INPUT_SIZE \<or> height image0 \<noteq> MODEL_INPUT_SIZE"
    by (rule disjI1)
  have h2: "session worker_ready = Some session_a"
    by (simp add: worker_ready_def)
  note c = C7_no_dimension_check[OF h1, of engine0]
  have a: "dims (preprocessImageData image0) = [1, 3, 2, 1]"
    using c[THEN conjunct1] by (simp add: image0_def)
  have b: "length (tdata (preprocessImageData image0)) = 6"
    using c[THEN conjunct2, THEN conjunct1] by (simp add: image0_def)
  have d: "\<exists>ctx. step engine0 worker_ready (Message (PROCESS_FRAME image0 7 100)) =
         Some (\<lparr> session = Some session_a,
                 pending = [AwaitRun session_a [(''images'', tensor0)] ctx],
                 ticks = 4 \<rparr>,
               [LogFrameStarted (Some 7)])"
    using c[THEN conjunct2, THEN conjunct2, rule_format, OF h2, of 7 100]
    by (simp add: preprocess_image0)
      (simp add: worker_ready_def session_a_def first_name_def)
  from h0 h2 a b d show ?thesis by blast
qed

section \<open>Unknown messages\<close>

text \<open>
  C8. A message whose type is neither \<^verbatim>\<open>INIT\<close> nor \<^verbatim>\<open>PROCESS_FRAME\<close> is logged with
  \<^verbatim>\<open>console.warn\<close> and ignored: nothing is posted and the worker, with its
  \<^verbatim>\<open>session\<close> variable, is what it was.
\<close>

theorem C8_unknown_type_ignored:
  assumes "mtype m \<noteq> ''INIT''" and "mtype m \<noteq> ''PROCESS_FRAME''"
  shows "step eng w (Message m) = Some (w, [WarnUnknownType (mtype m)])"
  using assms by (simp add: step_def onmessage_def)

text \<open>
  C8 at a \<^verbatim>\<open>PING\<close> message sent to a worker with a frame in flight.
\<close>

theorem C8_unknown_type_ignored_witness:
  "mtype \<lparr> mtype = ''PING'', mdata = None \<rparr> \<noteq> ''INIT''
   \<and> mtype \<lparr> mtype = ''PING'', mdata = None \<rparr> \<noteq> ''PROCESS_FRAME''
   \<and> step engine0 worker_busy (Message \<lparr> mtype = ''PING'', mdata = None \<rparr>) =
       Some (worker_busy, [WarnUnknownType ''PING''])"
  using C8_unknown_type_ignored[of "\<lparr> mtype = ''PING'', mdata = None \<rparr>" engine0 worker_busy]
  by simp

end
